theory Spec2Isabelle
  imports Main "HOL-Library.Sublist" "HOL-Library.Multiset"
begin

section \<open>Python values used by job_automator.py\<close>

text \<open>
  Exceptions of the source are values: a computation that can raise returns
  \<open>py_error + 'a\<close>, with \<open>Inl\<close> for the exception. \<open>ValueError\<close> stands for every parse failure
  (JSON, dates) and every time stamp out of range, \<open>TransportError\<close> for every failure of a
  request to an external service.
\<close>

datatype py_error =
  IndexError | KeyError | TypeError | AttributeError | ValueError | TransportError

text \<open>
  A function body is a sequence of statement blocks. A block either returns from the
  function, raises, or completes so that the statement after it runs (\<open>Next\<close>).
\<close>

datatype 'a flow = Return 'a | Raise py_error | Next

fun then_do :: "'a flow \<Rightarrow> 'a flow \<Rightarrow> 'a flow" where
  "then_do Next k = k"
| "then_do (Return v) k = Return v"
| "then_do (Raise e) k = Raise e"

text \<open>
  A \<open>for\<close> loop over a list whose body updates the loop state or raises; an exception
  leaves the loop at once.
\<close>

fun for_each :: "('s \<Rightarrow> 'a \<Rightarrow> py_error + 's) \<Rightarrow> 's \<Rightarrow> 'a list \<Rightarrow> py_error + 's" where
  "for_each body st [] = Inr st"
| "for_each body st (x # xs) =
     (case body st x of Inl e \<Rightarrow> Inl e | Inr st' \<Rightarrow> for_each body st' xs)"

subsection \<open>Strings\<close>

text \<open>
  A string is a list of characters; a character is a code point below 256 (Latin-1), and
  text with other code points is outside the model. \<open>lower\<close> is \<open>str.lower\<close> on such text: the
  letters A to Z and the capital letters 0xC0 to 0xDE (0xD7, the multiplication sign, is
  not a letter) are moved up by 32 and every other character is kept. \<open>sublist s t\<close> is the
  test \<open>s in t\<close> on strings (a contiguous occurrence; the empty string occurs in every
  string).
\<close>

definition lower_char :: "char \<Rightarrow> char" where
  "lower_char c =
     (let n = (of_char c :: nat)
      in if (65 \<le> n \<and> n \<le> 90) \<or> (192 \<le> n \<and> n \<le> 214) \<or> (216 \<le> n \<and> n \<le> 222)
         then char_of (n + 32) else c)"

definition lower :: "string \<Rightarrow> string" where
  "lower s = map lower_char s"

text \<open>
  The characters \<open>str.split()\<close> treats as separators: tab, line feed, vertical tab, form
  feed, carriage return, the four separators 0x1c to 0x1f, the space, the next-line
  character 0x85 and the no-break space 0xA0.
\<close>

definition is_space :: "char \<Rightarrow> bool" where
  "is_space c =
     (let n = (of_char c :: nat)
      in (9 \<le> n \<and> n \<le> 13) \<or> (28 \<le> n \<and> n \<le> 32) \<or> n = 133 \<or> n = 160)"

text \<open>
  \<open>s.split()\<close>: the maximal runs of non-separator characters, in order. The first
  argument is the word being read.
\<close>

fun split_from :: "string \<Rightarrow> string \<Rightarrow> string list" where
  "split_from cur [] = (if cur = [] then [] else [cur])"
| "split_from cur (c # cs) =
     (if is_space c
      then (if cur = [] then split_from [] cs else cur # split_from [] cs)
      else split_from (cur @ [c]) cs)"

definition str_split :: "string \<Rightarrow> string list" where
  "str_split s = split_from [] s"

text \<open>\<open>sep.join(xs)\<close>.\<close>

fun join :: "string \<Rightarrow> string list \<Rightarrow> string" where
  "join sep [] = []"
| "join sep [x] = x"
| "join sep (x # y # ys) = x @ sep @ join sep (y # ys)"

text \<open>
  \<open>s.replace(old, new)\<close> for a non-empty \<open>old\<close>: occurrences are replaced from the left and
  do not overlap. The first argument counts the characters of a replaced occurrence that
  are still to be skipped.
\<close>

fun replace_skip :: "nat \<Rightarrow> string \<Rightarrow> string \<Rightarrow> string \<Rightarrow> string" where
  "replace_skip k old new [] = []"
| "replace_skip k old new (c # cs) =
     (if 0 < k then replace_skip (k - 1) old new cs
      else if prefix old (c # cs) then new @ replace_skip (length old - 1) old new cs
      else c # replace_skip 0 old new cs)"

definition replace :: "string \<Rightarrow> string \<Rightarrow> string \<Rightarrow> string" where
  "replace old new s = replace_skip 0 old new s"

subsection \<open>Dictionaries read from JSON\<close>

text \<open>
  A key of a JSON object is absent, or holds \<open>null\<close>, or holds a value of the type the
  provider documents. A Python value that may be \<open>None\<close> is an option.
\<close>

datatype 'a field = Absent | Null | Val 'a

text \<open>\<open>d.get(key)\<close>: \<open>None\<close> for an absent key and for \<open>null\<close>.\<close>

fun dict_get :: "'a field \<Rightarrow> 'a option" where
  "dict_get Absent = None"
| "dict_get Null = None"
| "dict_get (Val v) = Some v"

text \<open>\<open>d.get(key, default)\<close>: the default stands in for an absent key only; \<open>null\<close> is \<open>None\<close>.\<close>

fun dict_get_or :: "'a field \<Rightarrow> 'a \<Rightarrow> 'a option" where
  "dict_get_or Absent d = Some d"
| "dict_get_or Null d = None"
| "dict_get_or (Val v) d = Some v"

text \<open>\<open>d[key]\<close>: an absent key raises KeyError.\<close>

fun dict_index :: "'a field \<Rightarrow> py_error + 'a option" where
  "dict_index Absent = Inl KeyError"
| "dict_index Null = Inr None"
| "dict_index (Val v) = Inr (Some v)"

text \<open>
  \<open>d.get(key, [])\<close> where the result is iterated, sliced or indexed: on \<open>None\<close> that raises
  TypeError.
\<close>

fun dict_get_list :: "'a list field \<Rightarrow> py_error + 'a list" where
  "dict_get_list Absent = Inr []"
| "dict_get_list Null = Inl TypeError"
| "dict_get_list (Val xs) = Inr xs"

text \<open>
  \<open>d.get(key, {}).get(inner, default)\<close>: when the outer key holds \<open>null\<close>, the second \<open>get\<close>
  is applied to \<open>None\<close> and raises AttributeError.
\<close>

fun dict_get_nested :: "'a field field \<Rightarrow> 'a \<Rightarrow> py_error + 'a option" where
  "dict_get_nested Absent d = Inr (Some d)"
| "dict_get_nested Null d = Inl AttributeError"
| "dict_get_nested (Val inner) d = Inr (dict_get_or inner d)"

text \<open>
  \<open>d.get(key, default)\<close> for a key of the oracle's reply, which holds a value of the type the
  specification gives it when it is present.
\<close>

fun get_default :: "'a option \<Rightarrow> 'a \<Rightarrow> 'a" where
  "get_default None d = d"
| "get_default (Some v) d = v"

text \<open>Truth values: \<open>None\<close> and the empty string are falsy; \<open>None\<close> and \<open>False\<close> are falsy.\<close>

fun truthy :: "string option \<Rightarrow> bool" where
  "truthy None = False"
| "truthy (Some v) = (v \<noteq> [])"

fun is_true :: "bool option \<Rightarrow> bool" where
  "is_true None = False"
| "is_true (Some b) = b"

text \<open>\<open>x or d\<close> for a string that may be \<open>None\<close>, and for a list that may be \<open>None\<close>.\<close>

fun or_else :: "string option \<Rightarrow> string \<Rightarrow> string" where
  "or_else None d = d"
| "or_else (Some v) d = (if v = [] then d else v)"

fun or_empty :: "'a list option \<Rightarrow> 'a list" where
  "or_empty None = []"
| "or_empty (Some xs) = xs"

text \<open>The text an f-string or \<open>str\<close> writes for a string that may be \<open>None\<close>.\<close>

fun fmt :: "string option \<Rightarrow> string" where
  "fmt None = ''None''"
| "fmt (Some v) = v"

section \<open>Data model\<close>

text \<open>
  A posting is the dictionary every adapter builds (lines 99-111, 135-147, 176-188):
  all eleven keys are always present. The values the adapters read with
  \<open>get(key, default)\<close> are \<open>None\<close> when the provider sends \<open>null\<close>; the other values are always
  strings.
\<close>

record posting =
  job_id :: string
  title :: "string option"
  company :: "string option"
  location :: string
  remote :: "bool option"
  description :: string
  apply_link :: "string option"
  posted_at :: "string option"
  salary :: "string option"
  tags :: string
  source :: string

text \<open>
  The candidate profile is the JSON object returned by the resume analysis; the filter
  and \<open>main\<close> read two of its keys, each a list of strings when it holds a value.
\<close>

record profile =
  target_roles :: "string list field"
  skills :: "string list field"

text \<open>
  The application package the oracle returns for one posting, as the specification types
  it (EnrichmentResult): the parsed JSON object of line 320, every key of which may be
  missing and otherwise holds a number (the score), a list of strings or a string, and the
  time stamp line 321 adds. The list of resume improvements is kept as its JSON text.
\<close>

record enrichment =
  match_score :: "int option"
  match_reasons :: "string list option"
  gaps :: "string list option"
  keywords_to_add :: "string list option"
  cover_letter :: "string option"
  resume_improvements :: "string option"
  application_strategy :: "string option"
  processed_at :: string

text \<open>A cell of a spreadsheet row is a string, a number, or blank (\<open>None\<close>).\<close>

datatype cell = Str string | Num int | Blank

text \<open>
  The payloads of the three providers, with the keys the adapters read. An element of the
  RemoteOK array need not be an object. An id is kept as the text an f-string writes for
  it. The Muse nests the name of the company and the landing page in objects, and gives
  locations and categories as lists of objects with a name.
\<close>

record rok_job =
  rok_id :: "string field"
  rok_position :: "string field"
  rok_company :: "string field"
  rok_description :: "string field"
  rok_url :: "string field"
  rok_apply_url :: "string field"
  rok_date :: "string field"
  rok_salary :: "string field"
  rok_tags :: "string list field"

datatype rok_item = Rok_other | Rok_dict rok_job

record arb_job =
  arb_slug :: "string field"
  arb_title :: "string field"
  arb_company_name :: "string field"
  arb_location :: "string field"
  arb_remote :: "bool field"
  arb_description :: "string field"
  arb_created_at :: "int field"
  arb_tags :: "string list field"

record muse_job =
  muse_id :: "string field"
  muse_name :: "string field"
  muse_company :: "string field field"
  muse_locations :: "string list field"
  muse_contents :: "string field"
  muse_refs :: "string field field"
  muse_publication_date :: "string field"
  muse_categories :: "string list field"

text \<open>
  Everything outside the program that one run meets. Points in time are integers, in
  microseconds since the epoch. \<open>fromisoformat\<close> is \<open>datetime.fromisoformat\<close> (\<open>None\<close> when the
  text is not a time stamp that can be compared with the cutoff), \<open>isoformat\<close> is
  \<open>datetime.isoformat\<close>; the three clocks are the values of \<open>datetime.now\<close> in the three adapters
  (lines 92, 130, 166); the three responses are the decoded payloads, or the failure of the
  request; \<open>oracle_reply\<close> is the outcome of the request of \<open>analyze_job\<close> for a posting;
  \<open>store_accepts\<close> tells whether \<open>append_row\<close> succeeds on a row; \<open>smtp_ok\<close> tells whether the
  mail is delivered.
\<close>

record env =
  remote_only :: bool
  fromisoformat :: "string \<Rightarrow> int option"
  isoformat :: "int \<Rightarrow> string"
  clock_rok :: int
  clock_arb :: int
  clock_muse :: int
  rok_response :: "py_error + rok_item list"
  arb_response :: "string \<Rightarrow> py_error + arb_job list"
  muse_response :: "py_error + muse_job list"
  oracle_reply :: "posting \<Rightarrow> py_error + enrichment"
  store_accepts :: "cell list \<Rightarrow> bool"
  smtp_ok :: bool

text \<open>
  What a run leaves behind: the postings sent to the oracle, in order; the rows of the
  sheet; the enriched pairs; the cards of the mailed digest, in order (\<open>None\<close> when no mail
  is sent); and the exception that ended the run, if any.
\<close>

record run_result =
  requests :: "posting list"
  sheet :: "cell list list"
  enriched :: "(posting \<times> enrichment) list"
  report :: "(posting \<times> enrichment) list option"
  raised :: "py_error option"

section \<open>filter_relevant_jobs\<close>

text \<open>The deny-list of lines 211-218.\<close>

definition non_us :: "string list" where
  "non_us = [''india'', ''uk'', ''germany'', ''france'', ''canada'', ''australia'',
     ''netherlands'', ''singapore'', ''brazil'', ''spain'', ''italy'', ''poland'',
     ''sweden'', ''norway'', ''denmark'', ''finland'', ''switzerland'', ''austria'',
     ''belgium'', ''portugal'', ''mexico'', ''argentina'', ''colombia'', ''philippines'',
     ''pakistan'', ''bangladesh'', ''nigeria'', ''kenya'', ''south africa'', ''egypt'',
     ''dubai'', ''uae'', ''london'', ''berlin'', ''paris'', ''toronto'', ''sydney'', ''mumbai'',
     ''bangalore'', ''delhi'', ''amsterdam'', ''remote - uk'', ''remote - europe'',
     ''remote - canada'', ''remote - australia'']"

text \<open>The allow-list of lines 248-257.\<close>

definition us_states :: "string list" where
  "us_states = [''alabama'', ''alaska'', ''arizona'', ''arkansas'', ''california'', ''colorado'',
     ''connecticut'', ''delaware'', ''florida'', ''georgia'', ''hawaii'', ''idaho'', ''illinois'',
     ''indiana'', ''iowa'', ''kansas'', ''kentucky'', ''louisiana'', ''maine'', ''maryland'',
     ''massachusetts'', ''michigan'', ''minnesota'', ''mississippi'', ''missouri'', ''montana'',
     ''nebraska'', ''nevada'', ''new hampshire'', ''new jersey'', ''new mexico'', ''new york'',
     ''north carolina'', ''north dakota'', ''ohio'', ''oklahoma'', ''oregon'', ''pennsylvania'',
     ''rhode island'', ''south carolina'', ''south dakota'', ''tennessee'', ''texas'', ''utah'',
     ''vermont'', ''virginia'', ''washington'', ''west virginia'', ''wisconsin'', ''wyoming'',
     ''nyc'', ''sf'', ''la'', ''chicago'', ''boston'', ''seattle'', ''austin'', ''denver'', ''atlanta'',
     ''miami'', ''dallas'', ''houston'', ''phoenix'', ''portland'', ''remote'', ''anywhere'']"

text \<open>
  Line 219: \<open>location and any(kw in location for kw in non_us)\<close>, for a lower-cased
  location \<open>loc\<close> and a deny-list \<open>deny\<close>.
\<close>

definition location_denied :: "string list \<Rightarrow> string \<Rightarrow> bool" where
  "location_denied deny loc = (loc \<noteq> [] \<and> list_ex (\<lambda>kw. sublist kw loc) deny)"

text \<open>Lines 210-219: the geography test of the loop, on line 210's lower-cased location.\<close>

definition geo_denied :: "posting \<Rightarrow> bool" where
  "geo_denied job = location_denied non_us (lower (location job))"

text \<open>Line 258: \<open>not any(kw in location for kw in us_states)\<close>.\<close>

definition geo_not_allowed :: "posting \<Rightarrow> bool" where
  "geo_not_allowed job =
     (let loc = lower (location job) in \<not> list_ex (\<lambda>kw. sublist kw loc) us_states)"

text \<open>
  Line 223: the text the relevance tests read. Adding a string to a title that is \<open>None\<close>
  raises TypeError.
\<close>

definition job_text :: "posting \<Rightarrow> py_error + string" where
  "job_text job =
     (case title job of
        None \<Rightarrow> Inl TypeError
      | Some t \<Rightarrow> Inr (lower (t @ '' '' @ description job)))"

text \<open>
  Line 224: \<open>any(role.split()[0] in text for role in target_roles)\<close>. The generator is
  consumed from the left and \<open>any\<close> stops at the first true element; indexing the
  first word of a role without words raises IndexError.
\<close>

fun role_match :: "string list \<Rightarrow> string \<Rightarrow> py_error + bool" where
  "role_match [] text = Inr False"
| "role_match (role # roles) text =
     (case str_split role of
        [] \<Rightarrow> Inl IndexError
      | w # ws \<Rightarrow> if sublist w text then Inr True else role_match roles text)"

text \<open>Lines 225 and 263: \<open>sum(1 for sk in skills if sk in text) >= n\<close>.\<close>

definition skill_match :: "nat \<Rightarrow> string list \<Rightarrow> string \<Rightarrow> bool" where
  "skill_match n sks text = (n \<le> length (filter (\<lambda>sk. sublist sk text) sks))"

text \<open>
  The body of the loop of lines 202-229. The loop state is the pair of \<open>seen_ids\<close> and
  \<open>filtered\<close>; \<open>ro\<close> is the setting REMOTE_ONLY.
\<close>

definition filter_step ::
  "bool \<Rightarrow> string list \<Rightarrow> string list \<Rightarrow> string set \<Rightarrow>
   string set \<times> posting list \<Rightarrow> posting \<Rightarrow> py_error + string set \<times> posting list" where
  "filter_step ro roles sks already_seen st job =
     (let jid = job_id job; seen_ids = fst st; filtered = snd st in
      if jid \<in> already_seen \<or> jid \<in> seen_ids then Inr st
      else if ro \<and> \<not> is_true (remote job) then Inr st
      else if geo_denied job then Inr st
      else
        (case job_text job of
           Inl e \<Rightarrow> Inl e
         | Inr text \<Rightarrow>
             (case role_match roles text of
                Inl e \<Rightarrow> Inl e
              | Inr rm \<Rightarrow>
                  if rm \<or> skill_match 1 sks text
                  then Inr (insert jid seen_ids, filtered @ [job])
                  else Inr st)))"

text \<open>The body of the loop of lines 239-267, which follows the \<open>return\<close> of line 232.\<close>

definition filter_step_us ::
  "bool \<Rightarrow> string list \<Rightarrow> string list \<Rightarrow> string set \<Rightarrow>
   string set \<times> posting list \<Rightarrow> posting \<Rightarrow> py_error + string set \<times> posting list" where
  "filter_step_us ro roles sks already_seen st job =
     (let jid = job_id job; seen_ids = fst st; filtered = snd st in
      if jid \<in> already_seen \<or> jid \<in> seen_ids then Inr st
      else if ro \<and> \<not> is_true (remote job) then Inr st
      else if geo_not_allowed job then Inr st
      else
        (case job_text job of
           Inl e \<Rightarrow> Inl e
         | Inr text \<Rightarrow>
             (case role_match roles text of
                Inl e \<Rightarrow> Inl e
              | Inr rm \<Rightarrow>
                  if rm \<or> skill_match 2 sks text
                  then Inr (insert jid seen_ids, filtered @ [job])
                  else Inr st)))"

text \<open>
  Lines 197 and 198 (and 234, 235): the lower-cased target roles and top eight skills.
  Iterating or slicing the \<open>None\<close> of a key that holds \<open>null\<close> raises TypeError.
\<close>

definition lowered_roles :: "profile \<Rightarrow> py_error + string list" where
  "lowered_roles prof =
     (case dict_get_list (target_roles prof) of
        Inl e \<Rightarrow> Inl e
      | Inr rs \<Rightarrow> Inr (map lower rs))"

definition top_skills :: "profile \<Rightarrow> py_error + string list" where
  "top_skills prof =
     (case dict_get_list (skills prof) of
        Inl e \<Rightarrow> Inl e
      | Inr ss \<Rightarrow> Inr (map lower (take 8 ss)))"

text \<open>Lines 197-232: the first block of the function body, ending in \<open>return filtered[:20]\<close>.\<close>

definition deny_list_block ::
  "bool \<Rightarrow> posting list \<Rightarrow> profile \<Rightarrow> string set \<Rightarrow> posting list flow" where
  "deny_list_block ro jobs prof already_seen =
     (case lowered_roles prof of
        Inl e \<Rightarrow> Raise e
      | Inr roles \<Rightarrow>
          (case top_skills prof of
             Inl e \<Rightarrow> Raise e
           | Inr sks \<Rightarrow>
               (case for_each (filter_step ro roles sks already_seen) ({}, []) jobs of
                  Inl e \<Rightarrow> Raise e
                | Inr st \<Rightarrow> Return (take 20 (snd st)))))"

text \<open>Lines 233-270: the statements written after that \<open>return\<close>.\<close>

definition allow_list_block ::
  "bool \<Rightarrow> posting list \<Rightarrow> profile \<Rightarrow> string set \<Rightarrow> posting list flow" where
  "allow_list_block ro jobs prof already_seen =
     (case lowered_roles prof of
        Inl e \<Rightarrow> Raise e
      | Inr roles \<Rightarrow>
          (case top_skills prof of
             Inl e \<Rightarrow> Raise e
           | Inr sks \<Rightarrow>
               (case for_each (filter_step_us ro roles sks already_seen) ({}, []) jobs of
                  Inl e \<Rightarrow> Raise e
                | Inr st \<Rightarrow> Return (take 20 (snd st)))))"

definition filter_relevant_jobs ::
  "bool \<Rightarrow> posting list \<Rightarrow> profile \<Rightarrow> string set \<Rightarrow> posting list flow" where
  "filter_relevant_jobs ro jobs prof already_seen =
     then_do (deny_list_block ro jobs prof already_seen)
             (allow_list_block ro jobs prof already_seen)"

section \<open>Source adapters\<close>

text \<open>\<open>timedelta(hours=24)\<close>, in microseconds.\<close>

definition lookback :: int where
  "lookback = 24 * 3600 * 1000000"

text \<open>
  \<open>datetime.fromtimestamp(t, tz=timezone.utc)\<close> for a number \<open>t\<close> of seconds: the point in
  time, in microseconds; it raises for a time outside the years 1 to 9999.
\<close>

definition fromtimestamp :: "int \<Rightarrow> py_error + int" where
  "fromtimestamp t =
     (if - 62135596800 \<le> t \<and> t \<le> 253402300799 then Inr (t * 1000000) else Inl ValueError)"

text \<open>
  Lines 99-111: the posting built from an element of the RemoteOK payload. The id is
  truthy here (line 94).
\<close>

definition rok_posting :: "rok_job \<Rightarrow> posting" where
  "rok_posting job =
     \<lparr>job_id = ''rok_'' @ fmt (dict_get (rok_id job)),
       title = dict_get_or (rok_position job) [],
       company = dict_get_or (rok_company job) ''N/A'',
       location = ''Remote'',
       remote = Some True,
       description =
         take 3000 (replace ''<'' '' <'' (or_else (dict_get (rok_description job)) [])),
       apply_link =
         (if truthy (dict_get (rok_url job)) then dict_get (rok_url job)
          else dict_get_or (rok_apply_url job) []),
       posted_at = dict_get_or (rok_date job) [],
       salary = dict_get_or (rok_salary job) [],
       tags = join '', '' (or_empty (dict_get (rok_tags job))),
       source = ''RemoteOK''\<rparr>"

text \<open>
  Lines 93-111. When the date is absent, null or empty the clock is read again (line 96);
  time does not run backwards, so that reading is not before the cutoff and the posting
  is kept.
\<close>

definition rok_step ::
  "(string \<Rightarrow> int option) \<Rightarrow> int \<Rightarrow> posting list \<Rightarrow> rok_item \<Rightarrow> py_error + posting list" where
  "rok_step fromiso now jobs item =
     (case item of
        Rok_other \<Rightarrow> Inr jobs
      | Rok_dict job \<Rightarrow>
          if \<not> truthy (dict_get (rok_id job)) then Inr jobs
          else
            (case (if truthy (dict_get (rok_date job))
                   then fromiso (replace ''Z'' ''+00:00'' (or_else (dict_get (rok_date job)) []))
                   else Some now) of
               None \<Rightarrow> Inl ValueError
             | Some posted \<Rightarrow>
                 if posted < now - lookback then Inr jobs
                 else Inr (jobs @ [rok_posting job])))"

text \<open>Lines 81-116: any exception gives the empty list.\<close>

definition fetch_remoteok_jobs ::
  "(string \<Rightarrow> int option) \<Rightarrow> int \<Rightarrow> py_error + rok_item list \<Rightarrow> posting list" where
  "fetch_remoteok_jobs fromiso now response =
     (case response of
        Inl e \<Rightarrow> []
      | Inr data \<Rightarrow>
          (case for_each (rok_step fromiso now) [] data of Inl e \<Rightarrow> [] | Inr jobs \<Rightarrow> jobs))"

text \<open>
  Lines 135-147: the posting built from an element of the Arbeitnow payload. An absent
  \<open>slug\<close> or \<open>created_at\<close> raises KeyError where it is indexed; a \<open>created_at\<close> that is
  \<open>None\<close> raises TypeError in \<open>fromtimestamp\<close>.
\<close>

definition arb_posting :: "(int \<Rightarrow> string) \<Rightarrow> arb_job \<Rightarrow> py_error + posting" where
  "arb_posting isofmt job =
     (case dict_index (arb_slug job) of
        Inl e \<Rightarrow> Inl e
      | Inr slug \<Rightarrow>
          (case dict_index (arb_created_at job) of
             Inl e \<Rightarrow> Inl e
           | Inr None \<Rightarrow> Inl TypeError
           | Inr (Some created) \<Rightarrow>
               (case fromtimestamp created of
                  Inl e \<Rightarrow> Inl e
                | Inr t \<Rightarrow>
                    Inr \<lparr>job_id = ''arb_'' @ fmt slug,
                          title = dict_get_or (arb_title job) [],
                          company = dict_get_or (arb_company_name job) ''N/A'',
                          location = or_else (dict_get (arb_location job))
                            (if is_true (dict_get (arb_remote job)) then ''Remote'' else ''N/A''),
                          remote = dict_get_or (arb_remote job) False,
                          description = take 3000
                            (replace ''<'' '' <'' (or_else (dict_get (arb_description job)) [])),
                          apply_link = Some (''https://www.arbeitnow.com/jobs/'' @ fmt slug),
                          posted_at = Some (isofmt t),
                          salary = Some [],
                          tags = join '', '' (or_empty (dict_get (arb_tags job))),
                          source = ''Arbeitnow''\<rparr>)))"

text \<open>
  Lines 131-147. An absent \<open>created_at\<close> is read as the epoch (line 132); one that is
  \<open>None\<close> raises TypeError.
\<close>

definition arb_step ::
  "(int \<Rightarrow> string) \<Rightarrow> int \<Rightarrow> posting list \<Rightarrow> arb_job \<Rightarrow> py_error + posting list" where
  "arb_step isofmt now jobs job =
     (case dict_get_or (arb_created_at job) 0 of
        None \<Rightarrow> Inl TypeError
      | Some created \<Rightarrow>
          (case fromtimestamp created of
             Inl e \<Rightarrow> Inl e
           | Inr posted \<Rightarrow>
               if posted < now - lookback then Inr jobs
               else (case arb_posting isofmt job of
                       Inl e \<Rightarrow> Inl e
                     | Inr p \<Rightarrow> Inr (jobs @ [p]))))"

text \<open>Lines 119-152.\<close>

definition fetch_arbeitnow_jobs ::
  "(int \<Rightarrow> string) \<Rightarrow> int \<Rightarrow> py_error + arb_job list \<Rightarrow> posting list" where
  "fetch_arbeitnow_jobs isofmt now response =
     (case response of
        Inl e \<Rightarrow> []
      | Inr data \<Rightarrow>
          (case for_each (arb_step isofmt now) [] data of Inl e \<Rightarrow> [] | Inr jobs \<Rightarrow> jobs))"

text \<open>The markup tokens of line 174.\<close>

definition markup_tokens :: "string list" where
  "markup_tokens = [''<p>'', ''</p>'', ''<br>'', ''<ul>'', ''<li>'', ''</li>'', ''</ul>'',
     ''<strong>'', ''</strong>'', ''<em>'', ''</em>'']"

text \<open>
  Lines 173-188: the posting built from an element of The Muse payload, the keys read in
  the order of the dictionary display. An absent \<open>id\<close> raises KeyError; a \<open>company\<close> or
  \<open>refs\<close> that is \<open>None\<close> raises AttributeError; \<open>locations\<close> or \<open>categories\<close> that are \<open>None\<close>
  raise TypeError.
\<close>

definition muse_posting :: "muse_job \<Rightarrow> py_error + posting" where
  "muse_posting job =
     (case dict_index (muse_id job) of
        Inl e \<Rightarrow> Inl e
      | Inr i \<Rightarrow>
     (case dict_get_nested (muse_company job) ''N/A'' of
        Inl e \<Rightarrow> Inl e
      | Inr cname \<Rightarrow>
     (case dict_get_list (muse_locations job) of
        Inl e \<Rightarrow> Inl e
      | Inr locs \<Rightarrow>
     (case dict_get_nested (muse_refs job) [] of
        Inl e \<Rightarrow> Inl e
      | Inr link \<Rightarrow>
     (case dict_get_list (muse_categories job) of
        Inl e \<Rightarrow> Inl e
      | Inr cats \<Rightarrow>
          Inr \<lparr>job_id = ''muse_'' @ fmt i,
                title = dict_get_or (muse_name job) [],
                company = cname,
                location = (if join '', '' locs = [] then ''N/A'' else join '', '' locs),
                remote = Some (list_ex (\<lambda>l. sublist ''remote'' (lower l)) locs),
                description = take 3000
                  (foldl (\<lambda>desc tag. replace tag '' '' desc)
                     (or_else (dict_get (muse_contents job)) []) markup_tokens),
                apply_link = link,
                posted_at = dict_get_or (muse_publication_date job) [],
                salary = Some [],
                tags = join '', '' cats,
                source = ''The Muse''\<rparr>)))))"

text \<open>Lines 167-188.\<close>

definition muse_step ::
  "(string \<Rightarrow> int option) \<Rightarrow> int \<Rightarrow> posting list \<Rightarrow> muse_job \<Rightarrow> py_error + posting list" where
  "muse_step fromiso now jobs job =
     (let pub = dict_get_or (muse_publication_date job) [];
          build = (case muse_posting job of Inl e \<Rightarrow> Inl e | Inr p \<Rightarrow> Inr (jobs @ [p]))
      in if truthy pub
         then (case fromiso (replace ''Z'' ''+00:00'' (or_else pub [])) of
                 None \<Rightarrow> Inl ValueError
               | Some posted \<Rightarrow> if posted < now - lookback then Inr jobs else build)
         else build)"

text \<open>Lines 155-193.\<close>

definition fetch_themuse_jobs ::
  "(string \<Rightarrow> int option) \<Rightarrow> int \<Rightarrow> py_error + muse_job list \<Rightarrow> posting list" where
  "fetch_themuse_jobs fromiso now response =
     (case response of
        Inl e \<Rightarrow> []
      | Inr data \<Rightarrow>
          (case for_each (muse_step fromiso now) [] data of Inl e \<Rightarrow> [] | Inr jobs \<Rightarrow> jobs))"

text \<open>
  The time stamp a posting carries: \<open>posted_at\<close> read the way the adapters read it. A
  posting is not older than the cutoff of a clock reading when it carries no time stamp
  (\<open>posted_at\<close> is \<open>None\<close> or empty) or its time stamp is at most 24 hours before that
  reading.
\<close>

definition not_older :: "(string \<Rightarrow> int option) \<Rightarrow> int \<Rightarrow> posting \<Rightarrow> bool" where
  "not_older fromiso now p =
     (\<not> truthy (posted_at p) \<or>
      (case fromiso (replace ''Z'' ''+00:00'' (or_else (posted_at p) [])) of
         None \<Rightarrow> False
       | Some t \<Rightarrow> now - lookback \<le> t))"

text \<open>
  What the Arbeitnow adapter relies on about the date library: the text \<open>isoformat\<close> writes for
  the creation time of a payload element is read back by \<open>fromisoformat\<close> as that time.
\<close>

definition iso_roundtrip :: "(string \<Rightarrow> int option) \<Rightarrow> (int \<Rightarrow> string) \<Rightarrow> arb_job \<Rightarrow> bool" where
  "iso_roundtrip fromiso isofmt job =
     (case dict_get (arb_created_at job) of
        None \<Rightarrow> True
      | Some created \<Rightarrow>
          (case fromtimestamp created of
             Inl e \<Rightarrow> True
           | Inr t \<Rightarrow> fromiso (replace ''Z'' ''+00:00'' (isofmt t)) = Some t))"

section \<open>Persistence and digest\<close>

text \<open>
  Lines 353-375: every key of the posting is present, so each \<open>get\<close> gives the stored value;
  a value that is \<open>None\<close> gives a blank cell, and \<open>str\<close> writes the remote flag.
\<close>

fun cell_of :: "string option \<Rightarrow> cell" where
  "cell_of None = Blank"
| "cell_of (Some v) = Str v"

fun str_of_bool :: "bool option \<Rightarrow> string" where
  "str_of_bool None = ''None''"
| "str_of_bool (Some b) = (if b then ''True'' else ''False'')"

definition sheet_row :: "posting \<Rightarrow> enrichment \<Rightarrow> cell list" where
  "sheet_row job ai =
     [Str (job_id job), cell_of (title job), cell_of (company job), Str (location job),
      Str (str_of_bool (remote job)), cell_of (apply_link job),
      cell_of (posted_at job), cell_of (salary job), Str (tags job), Str (source job),
      Num (get_default (match_score ai) 0),
      Str (join '' | '' (get_default (match_reasons ai) [])),
      Str (join '' | '' (get_default (gaps ai) [])),
      Str (join '', '' (get_default (keywords_to_add ai) [])),
      Str (get_default (cover_letter ai) []),
      Str (get_default (resume_improvements ai) ''[]''),
      Str (get_default (application_strategy ai) []),
      Str ''To Apply'',
      Str (processed_at ai)]"

definition write_job_to_sheet ::
  "(cell list \<Rightarrow> bool) \<Rightarrow> cell list list \<Rightarrow> posting \<Rightarrow> enrichment \<Rightarrow> py_error + cell list list" where
  "write_job_to_sheet accepts rows job ai =
     (if accepts (sheet_row job ai) then Inr (rows @ [sheet_row job ai]) else Inl TransportError)"

text \<open>Line 386: the sort key.\<close>

definition score :: "posting \<times> enrichment \<Rightarrow> int" where
  "score x = get_default (match_score (snd x)) 0"

text \<open>
  \<open>sorted(xs, key=key, reverse=True)\<close>: the list is reversed, sorted stably by ascending
  key, and reversed again.
\<close>

definition sorted_reverse :: "('a \<Rightarrow> int) \<Rightarrow> 'a list \<Rightarrow> 'a list" where
  "sorted_reverse key xs = rev (sort_key key (rev xs))"

text \<open>
  Lines 381-447. The digest is the list of cards, one for each pair, in the order of
  \<open>sorted_jobs\<close> (the loop of line 396); a failed delivery raises.
\<close>

definition send_email_digest ::
  "bool \<Rightarrow> (posting \<times> enrichment) list \<Rightarrow> py_error + (posting \<times> enrichment) list option" where
  "send_email_digest delivered jobs_with_ai =
     (if jobs_with_ai = [] then Inr None
      else if delivered then Inr (Some (sorted_reverse score jobs_with_ai))
      else Inl TransportError)"

section \<open>main\<close>

text \<open>
  Lines 492-502: one turn of the loop. The request to the oracle is made first; any
  exception of the request or of the write is caught and the posting is skipped.
\<close>

definition process_step :: "env \<Rightarrow> run_result \<Rightarrow> posting \<Rightarrow> run_result" where
  "process_step e st job =
     (let st1 = st\<lparr>requests := requests st @ [job]\<rparr> in
      case oracle_reply e job of
        Inl err \<Rightarrow> st1
      | Inr ai \<Rightarrow>
          (case write_job_to_sheet (store_accepts e) (sheet st1) job ai of
             Inl err \<Rightarrow> st1
           | Inr rows \<Rightarrow> st1\<lparr>sheet := rows, enriched := enriched st1 @ [(job, ai)]\<rparr>))"

text \<open>
  Line 477: the query of the second adapter. Indexing \<open>None\<close> raises TypeError, indexing the
  empty list IndexError.
\<close>

definition primary_role :: "profile \<Rightarrow> py_error + string" where
  "primary_role prof =
     (case dict_get_or (target_roles prof) [''software engineer''] of
        None \<Rightarrow> Inl TypeError
      | Some [] \<Rightarrow> Inl IndexError
      | Some (r # rs) \<Rightarrow> Inr r)"

text \<open>Lines 478-482.\<close>

definition all_jobs :: "env \<Rightarrow> string \<Rightarrow> posting list" where
  "all_jobs e query =
     fetch_remoteok_jobs (fromisoformat e) (clock_rok e) (rok_response e) @
     fetch_arbeitnow_jobs (isoformat e) (clock_arb e) (arb_response e query) @
     fetch_themuse_jobs (fromisoformat e) (clock_muse e) (muse_response e)"

text \<open>
  Lines 477-508, for a profile, the rows of the sheet and the ids read from it. A
  function that ends without \<open>return\<close> gives \<open>None\<close>, which line 485 takes as empty.
\<close>

definition main_pipeline :: "env \<Rightarrow> profile \<Rightarrow> cell list list \<Rightarrow> string set \<Rightarrow> run_result" where
  "main_pipeline e prof rows already_seen =
     (let start = \<lparr>requests = [], sheet = rows, enriched = [], report = None, raised = None\<rparr> in
      case primary_role prof of
        Inl err \<Rightarrow> start\<lparr>raised := Some err\<rparr>
      | Inr query \<Rightarrow>
          (case filter_relevant_jobs (remote_only e) (all_jobs e query) prof already_seen of
             Raise err \<Rightarrow> start\<lparr>raised := Some err\<rparr>
           | Next \<Rightarrow> start
           | Return relevant_jobs \<Rightarrow>
               if relevant_jobs = [] then start
               else
                 (let st = foldl (process_step e) start relevant_jobs in
                  case send_email_digest (smtp_ok e) (enriched st) of
                    Inl err \<Rightarrow> st\<lparr>raised := Some err\<rparr>
                  | Inr rep \<Rightarrow> st\<lparr>report := rep\<rparr>)))"

section \<open>Predicates of the specification\<close>

text \<open>
  The relevance predicate in the words of the specification, for the lower-cased target
  roles, the lower-cased top skills and the lower-cased title and description: (a) the
  first word of some role occurs in the text, or (b) at least one of the skills occurs in
  the text.
\<close>

definition first_word_in :: "string \<Rightarrow> string \<Rightarrow> bool" where
  "first_word_in text role = (case str_split role of [] \<Rightarrow> False | w # ws \<Rightarrow> sublist w text)"

definition spec_relevant :: "string list \<Rightarrow> string list \<Rightarrow> string \<Rightarrow> bool" where
  "spec_relevant roles sks text =
     (list_ex (first_word_in text) roles \<or> list_ex (\<lambda>sk. sublist sk text) sks)"

text \<open>
  The invariant of the loop of lines 202-229: the ids of \<open>filtered\<close> are pairwise different,
  \<open>seen_ids\<close> is the set of these ids, and none of them is in \<open>already_seen\<close>.
\<close>

definition filter_inv :: "string set \<Rightarrow> string set \<times> posting list \<Rightarrow> bool" where
  "filter_inv already_seen st =
     (distinct (map job_id (snd st)) \<and> fst st = job_id ` set (snd st)
      \<and> (\<forall>j \<in> set (snd st). job_id j \<notin> already_seen))"

section \<open>Example inputs\<close>

definition example_posting :: "string \<Rightarrow> string \<Rightarrow> string \<Rightarrow> string \<Rightarrow> posting" where
  "example_posting i t l d =
     \<lparr>job_id = i, title = Some t, company = Some ''Acme'', location = l, remote = Some True,
       description = d, apply_link = Some ''https://example.org/apply'', posted_at = Some [],
       salary = Some [], tags = [], source = ''RemoteOK''\<rparr>"

definition job_engineer :: posting where
  "job_engineer = example_posting ''rok_1'' ''Senior Data Engineer'' ''Remote'' ''Build pipelines''"

definition job_berlin :: posting where
  "job_berlin = example_posting ''muse_2'' ''Data Engineer'' ''Berlin, Germany'' ''Python''"

definition job_analyst :: posting where
  "job_analyst = example_posting ''arb_3'' ''Analyst'' [] ''Python and SQL''"

definition job_cook :: posting where
  "job_cook = example_posting ''rok_4'' ''Cook'' ''Remote'' ''Kitchen work''"

definition job_seen :: posting where
  "job_seen = example_posting ''rok_9'' ''Data Engineer'' ''Remote'' ''Python''"

definition job_tokyo :: posting where
  "job_tokyo = example_posting ''rok_5'' ''Analyst'' ''Tokyo, Japan'' ''Python''"

definition example_profile :: profile where
  "example_profile = \<lparr>target_roles = Val [''Data Engineer''], skills = Val [''Python'']\<rparr>"

text \<open>A profile whose only target role has no words.\<close>

definition wordless_profile :: profile where
  "wordless_profile = \<lparr>target_roles = Val [[]], skills = Val [''Python'']\<rparr>"

text \<open>A profile with a role without words after a role with words.\<close>

definition trailing_wordless_profile :: profile where
  "trailing_wordless_profile = \<lparr>target_roles = Val [''Data Engineer'', []], skills = Val []\<rparr>"

text \<open>A profile whose only target role is a no-break space.\<close>

definition nbsp_profile :: profile where
  "nbsp_profile = \<lparr>target_roles = Val [[CHR 0xA0]], skills = Val [''Python'']\<rparr>"

text \<open>A profile whose target roles are \<open>null\<close>.\<close>

definition null_roles_profile :: profile where
  "null_roles_profile = \<lparr>target_roles = Null, skills = Val [''Python'']\<rparr>"

text \<open>Postings with pairwise different ids that all match the example profile.\<close>

definition numbered_posting :: "nat \<Rightarrow> posting" where
  "numbered_posting n =
     example_posting (''rok_'' @ replicate n (CHR ''i'')) ''Data Engineer'' ''Remote'' []"

text \<open>An application package with a given match score.\<close>

definition example_ai :: "int \<Rightarrow> enrichment" where
  "example_ai sc =
     \<lparr>match_score = Some sc, match_reasons = Some [''Python'', ''pipelines''],
       gaps = Some [], keywords_to_add = None, cover_letter = Some ''Dear team'',
       resume_improvements = None, application_strategy = None,
       processed_at = ''2024-01-02T12:00:05+00:00''\<rparr>"

definition example_pairs :: "(posting \<times> enrichment) list" where
  "example_pairs =
     [(job_engineer, example_ai 40), (job_analyst, example_ai 90), (job_tokyo, example_ai 70)]"

text \<open>
  A date library that knows two time stamps: midnight of 2 January 2024 and midnight of
  1 January 2024 (UTC), in microseconds since the epoch.
\<close>

definition example_fromiso :: "string \<Rightarrow> int option" where
  "example_fromiso s =
     (if s = ''2024-01-02T00:00:00+00:00'' then Some 1704153600000000
      else if s = ''2024-01-01T00:00:00+00:00'' then Some 1704067200000000
      else None)"

definition example_isoformat :: "int \<Rightarrow> string" where
  "example_isoformat t =
     (if t = 1704153600000000 then ''2024-01-02T00:00:00+00:00''
      else if t = 1704067200000000 then ''2024-01-01T00:00:00+00:00''
      else ''1970-01-01T00:00:00+00:00'')"

text \<open>Payload elements dated 2 January (fresh at noon of 2 January) and 1 January (stale).\<close>

definition rok_object :: "string \<Rightarrow> string field \<Rightarrow> string \<Rightarrow> rok_job" where
  "rok_object i t d =
     \<lparr>rok_id = Val i, rok_position = t, rok_company = Val ''Acme'',
       rok_description = Val ''<p>Build Python pipelines</p>'', rok_url = Absent,
       rok_apply_url = Val ''https://remoteok.com/l/1'', rok_date = Val d,
       rok_salary = Absent, rok_tags = Val [''data'', ''etl'']\<rparr>"

definition rok_element :: "string \<Rightarrow> string \<Rightarrow> string \<Rightarrow> rok_item" where
  "rok_element i t d = Rok_dict (rok_object i (Val t) d)"

definition arb_element :: "string \<Rightarrow> string \<Rightarrow> int \<Rightarrow> arb_job" where
  "arb_element i t c =
     \<lparr>arb_slug = Val i, arb_title = Val t, arb_company_name = Val ''Beta'',
       arb_location = Null, arb_remote = Val True, arb_description = Val ''Python services'',
       arb_created_at = Val c, arb_tags = Absent\<rparr>"

definition muse_element :: "string \<Rightarrow> string \<Rightarrow> string \<Rightarrow> muse_job" where
  "muse_element i t d =
     \<lparr>muse_id = Val i, muse_name = Val t, muse_company = Val (Val ''Gamma''),
       muse_locations = Val [''Flexible / Remote''], muse_contents = Val ''<p>Data team</p>'',
       muse_refs = Val (Val ''https://www.themuse.com/jobs/7''),
       muse_publication_date = Val d, muse_categories = Val [''Data'']\<rparr>"

text \<open>
  A fresh element of the RemoteOK payload whose position is \<open>null\<close>, and the posting the
  adapter builds from it.
\<close>

definition untitled_object :: rok_job where
  "untitled_object = rok_object ''3'' Null ''2024-01-02T00:00:00Z''"

definition untitled_posting :: posting where
  "untitled_posting = rok_posting untitled_object"

text \<open>
  A run at noon of 2 January 2024 in which each provider returns a fresh and a stale
  element, the oracle fails on the Arbeitnow posting, the sheet accepts every row and the
  mail is delivered.
\<close>

definition example_env :: env where
  "example_env =
     \<lparr>remote_only = False,
       fromisoformat = example_fromiso,
       isoformat = example_isoformat,
       clock_rok = 1704196800000000,
       clock_arb = 1704196801000000,
       clock_muse = 1704196802000000,
       rok_response = Inr [Rok_other,
         rok_element ''1'' ''Senior Data Engineer'' ''2024-01-02T00:00:00Z'',
         rok_element ''2'' ''Data Engineer'' ''2024-01-01T00:00:00Z''],
       arb_response = (\<lambda>query. Inr [arb_element ''py-dev'' ''Python Developer'' 1704153600,
         arb_element ''old-dev'' ''Python Developer'' 1704067200]),
       muse_response = Inr [muse_element ''7'' ''Data Engineer II'' ''2024-01-02T00:00:00Z'',
         muse_element ''8'' ''Data Engineer III'' ''2024-01-01T00:00:00Z''],
       oracle_reply = (\<lambda>p. if job_id p = ''arb_py-dev'' then Inl ValueError
                            else Inr (example_ai 80)),
       store_accepts = (\<lambda>row. True),
       smtp_ok = True\<rparr>"

text \<open>The postings the three adapters deliver in the example run.\<close>

definition example_fetched :: "posting list" where
  "example_fetched = all_jobs example_env ''Data Engineer''"

section \<open>Properties of the filter\<close>

subsection \<open>Loops and blocks\<close>

lemma for_each_invariant:
  assumes "for_each body st xs = Inr st'" and "P st"
    and "\<And>s x s'. P s \<Longrightarrow> x \<in> set xs \<Longrightarrow> body s x = Inr s' \<Longrightarrow> P s'"
  shows "P st'"
  using assms
proof (induction xs arbitrary: st)
  case Nil
  then show ?case by simp
next
  case (Cons x xs)
  from Cons.prems(1) obtain s1 where s1: "body st x = Inr s1"
    and rest: "for_each body s1 xs = Inr st'"
    by (auto split: sum.splits)
  have s1_ok: "P s1" by (rule Cons.prems(3) [OF Cons.prems(2) _ s1]) simp
  show ?case
  proof (rule Cons.IH [OF rest s1_ok])
    fix s y s'
    assume s: "P s" and y: "y \<in> set xs" and step: "body s y = Inr s'"
    from y have "y \<in> set (x # xs)" by simp
    with s show "P s'" using step by (rule Cons.prems(3))
  qed
qed

lemma for_each_total:
  assumes "\<And>s x. x \<in> set xs \<Longrightarrow> \<exists>s'. body s x = Inr s'"
  shows "\<exists>st'. for_each body st xs = Inr st'"
  using assms
proof (induction xs arbitrary: st)
  case Nil
  then show ?case by simp
next
  case (Cons x xs)
  have "x \<in> set (x # xs)" by simp
  from Cons.prems [OF this, of st] obtain s1 where s1: "body st x = Inr s1" by blast
  have tail: "\<And>s y. y \<in> set xs \<Longrightarrow> \<exists>s'. body s y = Inr s'"
  proof -
    fix s y
    assume "y \<in> set xs"
    then have "y \<in> set (x # xs)" by simp
    then show "\<exists>s'. body s y = Inr s'" by (rule Cons.prems)
  qed
  have "\<exists>st'. for_each body s1 xs = Inr st'"
    by (rule Cons.IH) (rule tail)
  with s1 show ?case by simp
qed

lemma deny_list_block_not_Next: "deny_list_block ro jobs prof already_seen \<noteq> Next"
  by (simp add: deny_list_block_def split: sum.splits)

lemma then_do_not_Next: "b \<noteq> Next \<Longrightarrow> then_do b k = b"
  by (cases b) simp_all

lemma filter_relevant_jobs_first_block:
  "filter_relevant_jobs ro jobs prof already_seen = deny_list_block ro jobs prof already_seen"
  by (simp add: filter_relevant_jobs_def then_do_not_Next deny_list_block_not_Next)

lemma filter_relevant_jobs_Return:
  assumes "filter_relevant_jobs ro jobs prof already_seen = Return res"
  obtains roles sks st where "lowered_roles prof = Inr roles" and "top_skills prof = Inr sks"
    and "for_each (filter_step ro roles sks already_seen) ({}, []) jobs = Inr st"
    and "res = take 20 (snd st)"
  using assms unfolding filter_relevant_jobs_first_block deny_list_block_def
  by (auto split: sum.splits)

subsection \<open>The loop invariant\<close>

lemma filter_step_cases:
  assumes "filter_step ro roles sks already_seen st job = Inr st'"
  shows "st' = st \<or>
         (st' = (insert (job_id job) (fst st), snd st @ [job])
          \<and> job_id job \<notin> already_seen \<and> job_id job \<notin> fst st)"
  using assms
  by (auto simp: filter_step_def Let_def split: if_splits sum.splits)

lemma filter_step_inv:
  assumes "filter_inv already_seen st"
    and "filter_step ro roles sks already_seen st job = Inr st'"
  shows "filter_inv already_seen st'"
  using filter_step_cases [OF assms(2)] assms(1)
  by (auto simp: filter_inv_def)

lemma filter_loop_inv:
  assumes "for_each (filter_step ro roles sks already_seen) ({}, []) jobs = Inr st"
  shows "filter_inv already_seen st"
proof (rule for_each_invariant [OF assms])
  show "filter_inv already_seen ({}, [])" by (simp add: filter_inv_def)
next
  fix s x s'
  assume "filter_inv already_seen s" and "filter_step ro roles sks already_seen s x = Inr s'"
  then show "filter_inv already_seen s'" by (rule filter_step_inv)
qed

lemma filter_loop_subseq:
  assumes "for_each (filter_step ro roles sks already_seen) st jobs = Inr st'"
  shows "\<exists>ys. snd st' = snd st @ ys \<and> subseq ys jobs"
  using assms
proof (induction jobs arbitrary: st)
  case Nil
  then show ?case by simp
next
  case (Cons job jobs)
  from Cons.prems obtain s1 where s1: "filter_step ro roles sks already_seen st job = Inr s1"
    and rest: "for_each (filter_step ro roles sks already_seen) s1 jobs = Inr st'"
    by (auto split: sum.splits)
  from Cons.IH [OF rest] obtain ys where ys: "snd st' = snd s1 @ ys" "subseq ys jobs"
    by blast
  from filter_step_cases [OF s1] show ?case
  proof
    assume "s1 = st"
    with ys show ?thesis by auto
  next
    assume "s1 = (insert (job_id job) (fst st), snd st @ [job])
          \<and> job_id job \<notin> already_seen \<and> job_id job \<notin> fst st"
    with ys have "snd st' = snd st @ (job # ys)" "subseq (job # ys) (job # jobs)" by auto
    then show ?thesis by blast
  qed
qed

lemma filtered_subseq:
  assumes "filter_relevant_jobs ro jobs prof already_seen = Return res"
  shows "subseq res jobs"
proof -
  from assms obtain roles sks st where
    roles: "lowered_roles prof = Inr roles" and sks: "top_skills prof = Inr sks"
    and loop: "for_each (filter_step ro roles sks already_seen) ({}, []) jobs = Inr st"
    and res: "res = take 20 (snd st)"
    by (rule filter_relevant_jobs_Return)
  from filter_loop_subseq [OF loop] have "subseq (snd st) jobs" by simp
  moreover have "subseq res (snd st)"
    unfolding res by (metis append_take_drop_id list_emb_prefix subseq_order.order_refl)
  ultimately show ?thesis by (rule subseq_order.order_trans [rotated])
qed

text \<open>
  C1. Whatever the postings, the profile and the SeenSet, every posting id occurs at most
  once in the list filter_relevant_jobs returns, and no id of the SeenSet occurs in it.
\<close>

theorem filtered_ids_unique_and_unseen:
  assumes "filter_relevant_jobs ro jobs prof already_seen = Return res"
  shows "distinct (map job_id res) \<and> (\<forall>j \<in> set res. job_id j \<notin> already_seen)"
proof -
  from assms obtain roles sks st where
    roles: "lowered_roles prof = Inr roles" and sks: "top_skills prof = Inr sks"
    and loop: "for_each (filter_step ro roles sks already_seen) ({}, []) jobs = Inr st"
    and res: "res = take 20 (snd st)"
    by (rule filter_relevant_jobs_Return)
  have inv: "filter_inv already_seen st" using loop by (rule filter_loop_inv)
  have "distinct (map job_id res)"
    using inv by (simp add: filter_inv_def res take_map [symmetric])
  moreover have "\<forall>j \<in> set res. job_id j \<notin> already_seen"
    using inv by (auto simp: filter_inv_def res dest: in_set_takeD)
  ultimately show ?thesis by simp
qed

theorem filtered_ids_unique_and_unseen_witness:
  "filter_relevant_jobs False
      [job_engineer, job_engineer, job_berlin, job_analyst, job_cook, job_seen]
      example_profile {''rok_9''} = Return [job_engineer, job_analyst]
   \<and> distinct (map job_id [job_engineer, job_analyst])
   \<and> job_id job_engineer \<notin> {''rok_9''} \<and> job_id job_analyst \<notin> {''rok_9''}"
proof -
  have run: "filter_relevant_jobs False
      [job_engineer, job_engineer, job_berlin, job_analyst, job_cook, job_seen]
      example_profile {''rok_9''} = Return [job_engineer, job_analyst]"
    by code_simp
  from filtered_ids_unique_and_unseen [OF run]
  have "distinct (map job_id [job_engineer, job_analyst])"
    and "\<forall>j \<in> set [job_engineer, job_analyst]. job_id j \<notin> {''rok_9''}"
    by blast+
  then have "distinct (map job_id [job_engineer, job_analyst])"
    and "job_id job_engineer \<notin> {''rok_9''}" and "job_id job_analyst \<notin> {''rok_9''}"
    by simp_all
  with run show ?thesis by blast
qed

text \<open>
  C2. The list filter_relevant_jobs returns has at most 20 elements and is a subsequence
  of the input, in the order of the input: it is the first 20 accepted postings (all of
  them when there are fewer), in the order they were accepted.
\<close>

theorem filtered_capped_in_order:
  assumes "filter_relevant_jobs ro jobs prof already_seen = Return res"
  shows "length res \<le> 20 \<and> subseq res jobs \<and>
    (\<exists>roles sks st. lowered_roles prof = Inr roles \<and> top_skills prof = Inr sks \<and>
       for_each (filter_step ro roles sks already_seen) ({}, []) jobs = Inr st \<and>
       res = take 20 (snd st))"
proof -
  from assms obtain roles sks st where
    roles: "lowered_roles prof = Inr roles" and sks: "top_skills prof = Inr sks"
    and loop: "for_each (filter_step ro roles sks already_seen) ({}, []) jobs = Inr st"
    and res: "res = take 20 (snd st)"
    by (rule filter_relevant_jobs_Return)
  have "length res \<le> 20" by (simp add: res)
  moreover have "subseq res jobs" using assms by (rule filtered_subseq)
  ultimately show ?thesis using roles sks loop res by blast
qed

theorem filtered_capped_in_order_witness:
  "filter_relevant_jobs False (map numbered_posting [0..<22]) example_profile {}
     = Return (map numbered_posting [0..<20])
   \<and> length (map numbered_posting [0..<20]) \<le> 20
   \<and> subseq (map numbered_posting [0..<20]) (map numbered_posting [0..<22])"
proof -
  have run: "filter_relevant_jobs False (map numbered_posting [0..<22]) example_profile {}
     = Return (map numbered_posting [0..<20])"
    by code_simp
  from filtered_capped_in_order [OF run]
  have "length (map numbered_posting [0..<20]) \<le> 20"
    and "subseq (map numbered_posting [0..<20]) (map numbered_posting [0..<22])"
    by blast+
  with run show ?thesis by blast
qed

subsection \<open>Words and lower-casing\<close>

lemma is_space_lower_char: "is_space (lower_char c) = is_space c"
proof (cases "(65 \<le> (of_char c :: nat) \<and> (of_char c :: nat) \<le> 90)
    \<or> (192 \<le> (of_char c :: nat) \<and> (of_char c :: nat) \<le> 214)
    \<or> (216 \<le> (of_char c :: nat) \<and> (of_char c :: nat) \<le> 222)")
  case True
  then have "(of_char (char_of (of_char c + 32 :: nat)) :: nat) = of_char c + 32"
    by auto
  with True show ?thesis
    by (auto simp add: is_space_def lower_char_def Let_def)
next
  case False
  then show ?thesis by (auto simp add: lower_char_def Let_def)
qed

lemma split_from_Nil_iff: "split_from cur s = [] \<longleftrightarrow> cur = [] \<and> (\<forall>c \<in> set s. is_space c)"
  by (induction cur s rule: split_from.induct) auto

lemma str_split_lower_Nil_iff: "str_split (lower s) = [] \<longleftrightarrow> str_split s = []"
  by (simp add: str_split_def split_from_Nil_iff lower_def is_space_lower_char)

subsection \<open>The role test\<close>

lemma role_match_total:
  assumes "\<forall>role \<in> set roles. str_split role \<noteq> []"
  shows "\<exists>rm. role_match roles text = Inr rm"
  using assms
proof (induction roles)
  case Nil
  show ?case by (rule exI [of _ False]) simp
next
  case (Cons role roles)
  then obtain w ws where w: "str_split role = w # ws"
    by (cases "str_split role") auto
  from Cons obtain rm where "role_match roles text = Inr rm" by auto
  with w show ?case by auto
qed

lemma role_match_Inr:
  assumes "role_match roles text = Inr rm"
  shows "rm \<longleftrightarrow> list_ex (first_word_in text) roles"
  using assms
proof (induction roles)
  case Nil
  then show ?case by simp
next
  case (Cons role roles)
  then show ?case by (auto simp: first_word_in_def split: list.splits if_splits)
qed

lemma role_match_error: "role_match roles text = Inl err \<Longrightarrow> err = IndexError"
  by (induction roles) (auto split: list.splits if_splits)

lemma skill_match_one_iff: "skill_match 1 sks text \<longleftrightarrow> list_ex (\<lambda>sk. sublist sk text) sks"
proof -
  have "1 \<le> length (filter (\<lambda>sk. sublist sk text) sks)
          \<longleftrightarrow> filter (\<lambda>sk. sublist sk text) sks \<noteq> []"
    by (cases "filter (\<lambda>sk. sublist sk text) sks") simp_all
  then show ?thesis by (auto simp: skill_match_def filter_empty_conv list_ex_iff)
qed

lemma filter_step_reaches_relevance:
  assumes "job_id job \<notin> already_seen" and "job_id job \<notin> fst st"
    and "\<not> (ro \<and> \<not> is_true (remote job))" and "\<not> geo_denied job"
  shows "filter_step ro roles sks already_seen st job =
     (case job_text job of
        Inl e \<Rightarrow> Inl e
      | Inr text \<Rightarrow>
          (case role_match roles text of
             Inl e \<Rightarrow> Inl e
           | Inr rm \<Rightarrow>
               if rm \<or> skill_match 1 sks text
               then Inr (insert (job_id job) (fst st), snd st @ [job])
               else Inr st))"
  using assms by (auto simp: filter_step_def Let_def)

lemma job_text_error: "job_text job = Inl err \<longleftrightarrow> title job = None \<and> err = TypeError"
  by (auto simp: job_text_def split: option.splits)


subsection \<open>Relevance\<close>

text \<open>
  C3, as the code has it. For every posting that passes the duplicate, remote-only and
  geography checks and on which lines 223 and 224 do not raise, the loop accepts the
  posting if and only if (a) the first word of some lower-cased target role occurs in the
  lower-cased title and description, or (b) at least one of the lower-cased top skills
  occurs in that text. So a role match without any skill match is accepted, and a posting
  without role match and without skill match is rejected. (Line 223 raises TypeError when
  the title is \<open>None\<close>; the role test of line 224 raises IndexError when it reaches a target
  role without words before any first word has matched.)
\<close>

theorem relevance_accept_iff:
  assumes "job_id job \<notin> already_seen" and "job_id job \<notin> fst st"
    and "\<not> (ro \<and> \<not> is_true (remote job))" and "\<not> geo_denied job"
    and "lowered_roles prof = Inr roles" and "top_skills prof = Inr sks"
    and "job_text job = Inr text"
    and "role_match roles text = Inr rm"
  shows "filter_step ro roles sks already_seen st job =
     Inr (if spec_relevant roles sks text
          then (insert (job_id job) (fst st), snd st @ [job])
          else st)"
proof -
  have sm: "skill_match 1 sks text \<longleftrightarrow> list_ex (\<lambda>sk. sublist sk text) sks"
    by (rule skill_match_one_iff)
  have rmx: "rm \<longleftrightarrow> list_ex (first_word_in text) roles"
    by (rule role_match_Inr [OF assms(8)])
  have "rm \<or> skill_match 1 sks text \<longleftrightarrow> spec_relevant roles sks text"
    unfolding spec_relevant_def using sm rmx by blast
  then show ?thesis
    by (simp add: filter_step_reaches_relevance [OF assms(1-4)] assms(7,8))
qed

theorem relevance_accept_iff_witness:
  "filter_step False [''data engineer''] [''python''] {} ({}, []) job_engineer
       = Inr ({job_id job_engineer}, [job_engineer])
   \<and> job_text job_engineer = Inr ''senior data engineer build pipelines''
   \<and> \<not> list_ex (\<lambda>sk. sublist sk ''senior data engineer build pipelines'') [''python'']
   \<and> filter_step False [''data engineer''] [''python''] {} ({}, []) job_cook = Inr ({}, [])"
proof -
  have a: "job_id job_engineer \<notin> {}" "job_id job_engineer \<notin> fst ({}, [])"
    "job_id job_cook \<notin> {}" "job_id job_cook \<notin> fst ({}, [])"
    by simp_all
  have b: "\<not> (False \<and> \<not> is_true (remote job_engineer))"
    "\<not> (False \<and> \<not> is_true (remote job_cook))"
    by simp_all
  have c: "\<not> geo_denied job_engineer" "\<not> geo_denied job_cook"
    by code_simp+
  have p: "lowered_roles example_profile = Inr [''data engineer'']"
    "top_skills example_profile = Inr [''python'']"
    by code_simp+
  have t: "job_text job_engineer = Inr ''senior data engineer build pipelines''"
    "job_text job_cook = Inr ''cook kitchen work''"
    by code_simp+
  have d: "role_match [''data engineer''] ''senior data engineer build pipelines'' = Inr True"
    "role_match [''data engineer''] ''cook kitchen work'' = Inr False"
    by code_simp+
  have e: "spec_relevant [''data engineer''] [''python''] ''senior data engineer build pipelines''"
    "\<not> spec_relevant [''data engineer''] [''python''] ''cook kitchen work''"
    "\<not> list_ex (\<lambda>sk. sublist sk ''senior data engineer build pipelines'') [''python'']"
    by code_simp+
  from relevance_accept_iff [OF a(1) a(2) b(1) c(1) p(1) p(2) t(1) d(1)] e(1)
  have "filter_step False [''data engineer''] [''python''] {} ({}, []) job_engineer
       = Inr ({job_id job_engineer}, [job_engineer])"
    by simp
  moreover from relevance_accept_iff [OF a(3) a(4) b(2) c(2) p(1) p(2) t(2) d(2)] e(2)
  have "filter_step False [''data engineer''] [''python''] {} ({}, []) job_cook = Inr ({}, [])"
    by simp
  ultimately show ?thesis using t(1) e(3) by blast
qed

theorem relevance_counterexample:
  "lowered_roles wordless_profile = Inr [[]]
   \<and> top_skills wordless_profile = Inr [''python'']
   \<and> job_text job_analyst = Inr ''analyst python and sql''
   \<and> list_ex (\<lambda>sk. sublist sk ''analyst python and sql'') [''python'']
   \<and> spec_relevant [[]] [''python''] ''analyst python and sql''
   \<and> \<not> geo_denied job_analyst
   \<and> filter_step False [[]] [''python''] {} ({}, []) job_analyst = Inl IndexError
   \<and> filter_relevant_jobs False [job_analyst] wordless_profile {} = Raise IndexError"
proof -
  have "lowered_roles wordless_profile = Inr [[]]" by code_simp
  moreover have "top_skills wordless_profile = Inr [''python'']" by code_simp
  moreover have "job_text job_analyst = Inr ''analyst python and sql''" by code_simp
  moreover have "list_ex (\<lambda>sk. sublist sk ''analyst python and sql'') [''python'']"
    by code_simp
  moreover have "spec_relevant [[]] [''python''] ''analyst python and sql''" by code_simp
  moreover have "\<not> geo_denied job_analyst" by code_simp
  moreover have "filter_step False [[]] [''python''] {} ({}, []) job_analyst = Inl IndexError"
    by code_simp
  moreover have "filter_relevant_jobs False [job_analyst] wordless_profile {} = Raise IndexError"
    by code_simp
  ultimately show ?thesis by blast
qed

subsection \<open>Geography\<close>

lemma non_us_nonempty: "[] \<notin> set non_us"
  by (simp add: non_us_def)

lemma location_denied_iff:
  assumes "[] \<notin> set deny"
  shows "location_denied deny loc \<longleftrightarrow> (\<exists>kw \<in> set deny. sublist kw loc)"
  using assms by (auto simp: location_denied_def list_ex_iff)

lemma geo_denied_iff: "geo_denied job \<longleftrightarrow> (\<exists>kw \<in> set non_us. sublist kw (lower (location job)))"
  unfolding geo_denied_def by (rule location_denied_iff [OF non_us_nonempty])

text \<open>
  C4. The geography test applied to a posting is the deny-list test: a posting that has
  passed the duplicate and remote-only checks is skipped at line 220 if and only if its
  lower-cased location contains one of the keywords of \<open>non_us\<close>; otherwise lines 223 to
  229 decide. The allow-list policy of lines 233-270 is never executed: the first block
  always returns or raises, and the function is that block.
\<close>

theorem geography_is_deny_list:
  "(geo_denied job \<longleftrightarrow> (\<exists>kw \<in> set non_us. sublist kw (lower (location job))))
   \<and> (job_id job \<notin> already_seen \<and> job_id job \<notin> fst st
        \<and> \<not> (ro \<and> \<not> is_true (remote job)) \<longrightarrow>
        filter_step ro roles sks already_seen st job =
          (if \<exists>kw \<in> set non_us. sublist kw (lower (location job)) then Inr st
           else case job_text job of
                  Inl e \<Rightarrow> Inl e
                | Inr text \<Rightarrow>
                    (case role_match roles text of
                       Inl e \<Rightarrow> Inl e
                     | Inr rm \<Rightarrow>
                         if rm \<or> skill_match 1 sks text
                         then Inr (insert (job_id job) (fst st), snd st @ [job])
                         else Inr st)))
   \<and> deny_list_block ro jobs prof seen \<noteq> Next
   \<and> (\<forall>k. then_do (deny_list_block ro jobs prof seen) k = deny_list_block ro jobs prof seen)
   \<and> filter_relevant_jobs ro jobs prof seen = deny_list_block ro jobs prof seen"
proof (intro conjI impI allI)
  show "geo_denied job \<longleftrightarrow> (\<exists>kw \<in> set non_us. sublist kw (lower (location job)))"
    by (rule geo_denied_iff)
next
  assume reach: "job_id job \<notin> already_seen \<and> job_id job \<notin> fst st
      \<and> \<not> (ro \<and> \<not> is_true (remote job))"
  show "filter_step ro roles sks already_seen st job =
          (if \<exists>kw \<in> set non_us. sublist kw (lower (location job)) then Inr st
           else case job_text job of
                  Inl e \<Rightarrow> Inl e
                | Inr text \<Rightarrow>
                    (case role_match roles text of
                       Inl e \<Rightarrow> Inl e
                     | Inr rm \<Rightarrow>
                         if rm \<or> skill_match 1 sks text
                         then Inr (insert (job_id job) (fst st), snd st @ [job])
                         else Inr st))"
  proof (cases "geo_denied job")
    case True
    with reach have "filter_step ro roles sks already_seen st job = Inr st"
      by (auto simp: filter_step_def Let_def)
    with True show ?thesis by (simp only: geo_denied_iff if_True)
  next
    case False
    with reach have "filter_step ro roles sks already_seen st job =
       (case job_text job of
          Inl e \<Rightarrow> Inl e
        | Inr text \<Rightarrow>
            (case role_match roles text of
               Inl e \<Rightarrow> Inl e
             | Inr rm \<Rightarrow>
                 if rm \<or> skill_match 1 sks text
                 then Inr (insert (job_id job) (fst st), snd st @ [job])
                 else Inr st))"
      by (intro filter_step_reaches_relevance) blast+
    with False show ?thesis by (simp only: geo_denied_iff if_False)
  qed
next
  show "deny_list_block ro jobs prof seen \<noteq> Next"
    by (rule deny_list_block_not_Next)
next
  fix k
  show "then_do (deny_list_block ro jobs prof seen) k = deny_list_block ro jobs prof seen"
    by (rule then_do_not_Next [OF deny_list_block_not_Next])
next
  show "filter_relevant_jobs ro jobs prof seen = deny_list_block ro jobs prof seen"
    by (rule filter_relevant_jobs_first_block)
qed

theorem geography_is_deny_list_witness:
  "geo_denied job_berlin
   \<and> filter_step False [''data engineer''] [''python''] {} ({}, []) job_berlin = Inr ({}, [])
   \<and> deny_list_block False [job_tokyo] example_profile {} = Return [job_tokyo]
   \<and> then_do (deny_list_block False [job_tokyo] example_profile {})
        (allow_list_block False [job_tokyo] example_profile {}) = Return [job_tokyo]
   \<and> allow_list_block False [job_tokyo] example_profile {} = Return []"
proof -
  note inst = geography_is_deny_list [where job = job_berlin and already_seen = "{}"
      and st = "({}, [])" and ro = False and roles = "[''data engineer'']"
      and sks = "[''python'']" and jobs = "[job_tokyo]" and prof = example_profile
      and seen = "{}"]
  have kw: "''germany'' \<in> set non_us" by (simp add: non_us_def)
  have occ: "sublist ''germany'' (lower (location job_berlin))" by code_simp
  from kw occ have ex: "\<exists>kw \<in> set non_us. sublist kw (lower (location job_berlin))" by blast
  with inst have denied: "geo_denied job_berlin" by blast
  have reach: "job_id job_berlin \<notin> {} \<and> job_id job_berlin \<notin> fst ({}, [])
      \<and> \<not> (False \<and> \<not> is_true (remote job_berlin))"
    by simp
  from inst reach ex
  have step: "filter_step False [''data engineer''] [''python''] {} ({}, []) job_berlin
      = Inr ({}, [])"
    by simp
  have run: "filter_relevant_jobs False [job_tokyo] example_profile {} = Return [job_tokyo]"
    by code_simp
  from inst run have blk: "deny_list_block False [job_tokyo] example_profile {} = Return [job_tokyo]"
    by simp
  from inst blk have seq: "then_do (deny_list_block False [job_tokyo] example_profile {})
        (allow_list_block False [job_tokyo] example_profile {}) = Return [job_tokyo]"
    by simp
  have alt: "allow_list_block False [job_tokyo] example_profile {} = Return []"
    by code_simp
  from denied step blk seq alt show ?thesis by blast
qed

text \<open>
  C9. A posting whose location is the empty string is never rejected by the geography
  test, whatever the deny-list holds (even a keyword that occurs in every string, the empty
  one): line 219 tests the location first. So the geography test rejects only postings with
  a non-empty location, and a posting with an empty location that has passed the duplicate
  and remote-only checks goes on to lines 223 to 229.
\<close>

theorem empty_location_never_denied:
  "(location job = [] \<longrightarrow> \<not> location_denied deny (lower (location job)))
   \<and> (location job = [] \<longrightarrow> \<not> geo_denied job)
   \<and> (geo_denied job \<longrightarrow> location job \<noteq> [])
   \<and> (location job = [] \<and> job_id job \<notin> already_seen \<and> job_id job \<notin> fst st
        \<and> \<not> (ro \<and> \<not> is_true (remote job)) \<longrightarrow>
        filter_step ro roles sks already_seen st job =
          (case job_text job of
             Inl e \<Rightarrow> Inl e
           | Inr text \<Rightarrow>
               (case role_match roles text of
                  Inl e \<Rightarrow> Inl e
                | Inr rm \<Rightarrow>
                    if rm \<or> skill_match 1 sks text
                    then Inr (insert (job_id job) (fst st), snd st @ [job])
                    else Inr st)))"
proof -
  have a: "location job = [] \<longrightarrow> \<not> location_denied deny (lower (location job))" for deny
    by (simp add: location_denied_def lower_def)
  then have b: "location job = [] \<longrightarrow> \<not> geo_denied job"
    by (simp add: geo_denied_def)
  have c: "location job = [] \<and> job_id job \<notin> already_seen \<and> job_id job \<notin> fst st
        \<and> \<not> (ro \<and> \<not> is_true (remote job)) \<longrightarrow>
        filter_step ro roles sks already_seen st job =
          (case job_text job of
             Inl e \<Rightarrow> Inl e
           | Inr text \<Rightarrow>
               (case role_match roles text of
                  Inl e \<Rightarrow> Inl e
                | Inr rm \<Rightarrow>
                    if rm \<or> skill_match 1 sks text
                    then Inr (insert (job_id job) (fst st), snd st @ [job])
                    else Inr st))"
  proof
    assume h: "location job = [] \<and> job_id job \<notin> already_seen \<and> job_id job \<notin> fst st
        \<and> \<not> (ro \<and> \<not> is_true (remote job))"
    with b have "\<not> geo_denied job" by blast
    with h show "filter_step ro roles sks already_seen st job =
          (case job_text job of
             Inl e \<Rightarrow> Inl e
           | Inr text \<Rightarrow>
               (case role_match roles text of
                  Inl e \<Rightarrow> Inl e
                | Inr rm \<Rightarrow>
                    if rm \<or> skill_match 1 sks text
                    then Inr (insert (job_id job) (fst st), snd st @ [job])
                    else Inr st))"
      by (intro filter_step_reaches_relevance) blast+
  qed
  from a b c show ?thesis by blast
qed

theorem empty_location_never_denied_witness:
  "location job_analyst = []
   \<and> list_ex (\<lambda>kw. sublist kw (lower (location job_analyst))) [[]]
   \<and> \<not> location_denied [[]] (lower (location job_analyst))
   \<and> \<not> geo_denied job_analyst
   \<and> geo_denied job_berlin \<and> location job_berlin \<noteq> []
   \<and> filter_step False [''data engineer''] [''python''] {} ({}, [])
        job_analyst = Inr ({job_id job_analyst}, [job_analyst])"
proof -
  have loc: "location job_analyst = []" by (simp add: job_analyst_def example_posting_def)
  have matches: "list_ex (\<lambda>kw. sublist kw (lower (location job_analyst))) [[]]" by simp
  note inst = empty_location_never_denied [where job = job_analyst and deny = "[[]]"
      and already_seen = "{}" and st = "({}, [])" and ro = False
      and roles = "[''data engineer'']" and sks = "[''python'']"]
  from inst loc have nd: "\<not> location_denied [[]] (lower (location job_analyst))"
    and ng: "\<not> geo_denied job_analyst"
    by blast+
  have berlin: "geo_denied job_berlin" by code_simp
  with empty_location_never_denied [of job_berlin] have bl: "location job_berlin \<noteq> []"
    by blast
  have reach: "job_id job_analyst \<notin> {} \<and> job_id job_analyst \<notin> fst ({}, [])
      \<and> \<not> (False \<and> \<not> is_true (remote job_analyst))"
    by simp
  have jt: "job_text job_analyst = Inr ''analyst python and sql''" by code_simp
  have rm: "role_match [''data engineer''] ''analyst python and sql'' = Inr False"
    by code_simp
  have sk: "skill_match 1 [''python''] ''analyst python and sql''"
    by code_simp
  from inst loc reach jt rm sk
  have step: "filter_step False [''data engineer''] [''python''] {} ({}, []) job_analyst
        = Inr ({job_id job_analyst}, [job_analyst])"
    by simp
  from loc matches nd ng berlin bl step show ?thesis by blast
qed

subsection \<open>Totality\<close>

lemma lowered_roles_Inr:
  assumes "target_roles prof \<noteq> Null"
  shows "lowered_roles prof = Inr (map lower (or_empty (dict_get (target_roles prof))))"
  using assms by (cases "target_roles prof") (simp_all add: lowered_roles_def)

lemma top_skills_Inr:
  assumes "skills prof \<noteq> Null"
  shows "\<exists>sks. top_skills prof = Inr sks"
  using assms by (cases "skills prof") (simp_all add: top_skills_def)

lemma null_profile_raises:
  assumes "target_roles prof = Null \<or> skills prof = Null"
  shows "filter_relevant_jobs ro jobs prof already_seen = Raise TypeError"
proof (cases "target_roles prof = Null")
  case True
  then show ?thesis
    by (simp add: filter_relevant_jobs_first_block deny_list_block_def lowered_roles_def)
next
  case False
  with assms have sk: "skills prof = Null" by blast
  from lowered_roles_Inr [OF False] sk show ?thesis
    by (simp add: filter_relevant_jobs_first_block deny_list_block_def top_skills_def)
qed

lemma lowered_words:
  assumes "\<forall>role \<in> set rs. str_split role \<noteq> []"
  shows "\<forall>role \<in> set (map lower rs). str_split role \<noteq> []"
  using assms by (auto simp: str_split_lower_Nil_iff)

lemma filter_step_total:
  assumes "\<forall>role \<in> set roles. str_split role \<noteq> []" and "title job \<noteq> None"
  shows "\<exists>st'. filter_step ro roles sks already_seen st job = Inr st'"
proof -
  from assms(2) obtain body where jt: "job_text job = Inr body"
    by (auto simp: job_text_def)
  from role_match_total [OF assms(1)] obtain rm where "role_match roles body = Inr rm"
    by blast
  with jt show ?thesis by (simp add: filter_step_def Let_def)
qed

lemma role_match_Inl_iff:
  "role_match roles text = Inl IndexError \<longleftrightarrow>
     (\<exists>pre r post. roles = pre @ r # post \<and> str_split r = [] \<and>
        \<not> list_ex (first_word_in text) pre \<and> (\<forall>q \<in> set pre. str_split q \<noteq> []))"
  (is "?L roles \<longleftrightarrow> ?R roles")
proof (induction roles)
  case Nil
  show ?case by simp
next
  case (Cons role roles)
  show ?case
  proof (cases "str_split role")
    case Nil
    have "role # roles = [] @ role # roles \<and> str_split role = [] \<and>
        \<not> list_ex (first_word_in text) [] \<and> (\<forall>q \<in> set []. str_split q \<noteq> [])"
      using Nil by simp
    then have "?R (role # roles)" by blast
    moreover have "?L (role # roles)" using Nil by simp
    ultimately show ?thesis by blast
  next
    case (Cons w ws)
    note w = this
    have hit: "first_word_in text role \<longleftrightarrow> sublist w text"
      by (simp add: first_word_in_def w)
    show ?thesis
    proof (cases "sublist w text")
      case True
      have "\<not> ?R (role # roles)"
      proof
        assume "?R (role # roles)"
        then obtain pre r post where *: "role # roles = pre @ r # post" "str_split r = []"
          "\<not> list_ex (first_word_in text) pre" by blast
        show False
        proof (cases pre)
          case Nil
          with * w show False by simp
        next
          case (Cons p ps)
          with *(1) have "p = role" by simp
          with Cons *(3) hit True show False by simp
        qed
      qed
      moreover have "\<not> ?L (role # roles)" using w True by simp
      ultimately show ?thesis by blast
    next
      case False
      have "?R (role # roles) \<longleftrightarrow> ?R roles"
      proof
        assume "?R (role # roles)"
        then obtain pre r post where *: "role # roles = pre @ r # post" "str_split r = []"
          "\<not> list_ex (first_word_in text) pre" "\<forall>q \<in> set pre. str_split q \<noteq> []" by blast
        show "?R roles"
        proof (cases pre)
          case Nil
          with * w show ?thesis by simp
        next
          case (Cons p ps)
          with * have "roles = ps @ r # post" "\<not> list_ex (first_word_in text) ps"
            "\<forall>q \<in> set ps. str_split q \<noteq> []"
            by auto
          with *(2) show ?thesis by blast
        qed
      next
        assume "?R roles"
        then obtain pre r post where *: "roles = pre @ r # post" "str_split r = []"
          "\<not> list_ex (first_word_in text) pre" "\<forall>q \<in> set pre. str_split q \<noteq> []" by blast
        have "role # roles = (role # pre) @ r # post" using * by simp
        moreover have "\<not> list_ex (first_word_in text) (role # pre)"
          using * hit False by simp
        moreover have "\<forall>q \<in> set (role # pre). str_split q \<noteq> []"
          using * w by simp
        ultimately show "?R (role # roles)" using *(2) by blast
      qed
      moreover have "?L (role # roles) \<longleftrightarrow> ?L roles" using w False by simp
      ultimately show ?thesis using Cons.IH by blast
    qed
  qed
qed

text \<open>
  C10, as the code has it. filter_relevant_jobs never raises when the two keys of the
  profile do not hold \<open>null\<close>, every target role contains a word and every posting has a
  title that is a string: lower-casing keeps a role with a word a role with a word, and
  the role test indexes the first word of each role it evaluates. The function raises
  TypeError when one of the two keys of the profile holds \<open>null\<close>. On a posting that
  reaches line 223 the loop raises exactly in two cases: with TypeError when the title is
  \<open>None\<close> (as it is when the provider sent \<open>null\<close>), and with IndexError when a role
  without words comes before every role whose first word occurs in the text of the
  posting. So a role without words does not make the role test fail on every posting
  that reaches it: \<open>any\<close> stops at the first role whose first word occurs in the text.
\<close>

theorem filter_total_when_roles_have_words:
  "(target_roles prof \<noteq> Null \<and> skills prof \<noteq> Null
      \<and> (\<forall>role \<in> set (or_empty (dict_get (target_roles prof))). str_split role \<noteq> [])
      \<and> (\<forall>job \<in> set jobs. title job \<noteq> None) \<longrightarrow>
      (\<exists>res. filter_relevant_jobs ro jobs prof already_seen = Return res))
   \<and> (target_roles prof = Null \<or> skills prof = Null \<longrightarrow>
        filter_relevant_jobs ro jobs prof already_seen = Raise TypeError)
   \<and> (job_id job \<notin> already_seen \<and> job_id job \<notin> fst st
        \<and> \<not> (ro \<and> \<not> is_true (remote job)) \<and> \<not> geo_denied job \<longrightarrow>
        ((\<exists>err. filter_step ro roles sks already_seen st job = Inl err)
         \<longleftrightarrow> title job = None
             \<or> (\<exists>text pre r post. job_text job = Inr text \<and> roles = pre @ r # post \<and>
                   str_split r = [] \<and> \<not> list_ex (first_word_in text) pre \<and>
                   (\<forall>q \<in> set pre. str_split q \<noteq> []))))
   \<and> (filter_step ro roles sks already_seen st job = Inl err \<longrightarrow>
        (title job = None \<and> err = TypeError) \<or> (title job \<noteq> None \<and> err = IndexError))"
proof (intro conjI impI)
  assume pre: "target_roles prof \<noteq> Null \<and> skills prof \<noteq> Null
      \<and> (\<forall>role \<in> set (or_empty (dict_get (target_roles prof))). str_split role \<noteq> [])
      \<and> (\<forall>job \<in> set jobs. title job \<noteq> None)"
  let ?roles = "map lower (or_empty (dict_get (target_roles prof)))"
  from pre have roles: "lowered_roles prof = Inr ?roles" by (simp add: lowered_roles_Inr)
  from pre obtain sks' where sks': "top_skills prof = Inr sks'"
    using top_skills_Inr by blast
  from pre have words: "\<forall>role \<in> set ?roles. str_split role \<noteq> []"
    by (intro lowered_words) blast
  have "\<exists>st'. for_each (filter_step ro ?roles sks' already_seen) ({}, []) jobs = Inr st'"
  proof (rule for_each_total)
    fix s x
    assume "x \<in> set jobs"
    with pre have "title x \<noteq> None" by blast
    with words show "\<exists>s'. filter_step ro ?roles sks' already_seen s x = Inr s'"
      by (rule filter_step_total)
  qed
  then obtain st' where "for_each (filter_step ro ?roles sks' already_seen) ({}, []) jobs
      = Inr st'"
    by blast
  with roles sks'
  have "filter_relevant_jobs ro jobs prof already_seen = Return (take 20 (snd st'))"
    by (simp add: filter_relevant_jobs_first_block deny_list_block_def)
  then show "\<exists>res. filter_relevant_jobs ro jobs prof already_seen = Return res" by blast
next
  assume "target_roles prof = Null \<or> skills prof = Null"
  then show "filter_relevant_jobs ro jobs prof already_seen = Raise TypeError"
    by (rule null_profile_raises)
next
  assume reach: "job_id job \<notin> already_seen \<and> job_id job \<notin> fst st
      \<and> \<not> (ro \<and> \<not> is_true (remote job)) \<and> \<not> geo_denied job"
  then have step: "filter_step ro roles sks already_seen st job =
     (case job_text job of
        Inl e \<Rightarrow> Inl e
      | Inr text \<Rightarrow>
          (case role_match roles text of
             Inl e \<Rightarrow> Inl e
           | Inr rm \<Rightarrow>
               if rm \<or> skill_match 1 sks text
               then Inr (insert (job_id job) (fst st), snd st @ [job])
               else Inr st))"
    by (intro filter_step_reaches_relevance) blast+
  show "(\<exists>err. filter_step ro roles sks already_seen st job = Inl err)
         \<longleftrightarrow> title job = None
             \<or> (\<exists>text pre r post. job_text job = Inr text \<and> roles = pre @ r # post \<and>
                   str_split r = [] \<and> \<not> list_ex (first_word_in text) pre \<and>
                   (\<forall>q \<in> set pre. str_split q \<noteq> []))"
  proof (cases "title job")
    case None
    then have "job_text job = Inl TypeError" by (simp add: job_text_def)
    with None show ?thesis by (simp add: step)
  next
    case (Some t)
    then obtain body where jt: "job_text job = Inr body" by (simp add: job_text_def)
    have "(\<exists>err. filter_step ro roles sks already_seen st job = Inl err)
        \<longleftrightarrow> role_match roles body = Inl IndexError"
    proof
      assume "\<exists>err. filter_step ro roles sks already_seen st job = Inl err"
      then obtain err where "role_match roles body = Inl err"
        unfolding step jt by (auto split: sum.splits if_splits)
      then show "role_match roles body = Inl IndexError"
        using role_match_error by blast
    next
      assume "role_match roles body = Inl IndexError"
      then show "\<exists>err. filter_step ro roles sks already_seen st job = Inl err"
        unfolding step jt by simp
    qed
    with Some jt show ?thesis by (simp add: role_match_Inl_iff)
  qed
next
  assume raised: "filter_step ro roles sks already_seen st job = Inl err"
  show "(title job = None \<and> err = TypeError) \<or> (title job \<noteq> None \<and> err = IndexError)"
  proof (cases "title job")
    case None
    then have "job_text job = Inl TypeError" by (simp add: job_text_def)
    with raised have "err = TypeError"
      by (auto simp: filter_step_def Let_def split: if_splits)
    with None show ?thesis by simp
  next
    case (Some t)
    then obtain body where jt: "job_text job = Inr body" by (simp add: job_text_def)
    from jt raised have "role_match roles body = Inl err"
      by (auto simp: filter_step_def Let_def split: if_splits sum.splits)
    then have "err = IndexError" by (rule role_match_error)
    with Some show ?thesis by simp
  qed
qed

theorem filter_total_when_roles_have_words_witness:
  "(\<exists>res. filter_relevant_jobs False [job_engineer, job_cook] example_profile {} = Return res)
   \<and> filter_relevant_jobs False [job_engineer] null_roles_profile {} = Raise TypeError
   \<and> str_split [CHR 0xA0] = []
   \<and> (\<exists>err. filter_step False [[CHR 0xA0]] [''python''] {} ({}, []) job_analyst = Inl err)
   \<and> filter_relevant_jobs False [job_analyst] nbsp_profile {} = Raise IndexError
   \<and> filter_step False [''data engineer''] [''python''] {} ({}, []) untitled_posting
        = Inl TypeError"
proof -
  note inst1 = filter_total_when_roles_have_words [where prof = example_profile
      and ro = False and jobs = "[job_engineer, job_cook]" and already_seen = "{}"]
  note inst2 = filter_total_when_roles_have_words [where prof = null_roles_profile
      and ro = False and jobs = "[job_engineer]" and already_seen = "{}"]
  note inst3 = filter_total_when_roles_have_words [where ro = False and already_seen = "{}"
      and job = job_analyst and st = "({}, [])" and roles = "[[CHR 0xA0]]"
      and sks = "[''python'']"]
  note inst4 = filter_total_when_roles_have_words [where ro = False and already_seen = "{}"
      and job = untitled_posting and st = "({}, [])" and roles = "[''data engineer'']"
      and sks = "[''python'']"]
  have fields: "target_roles example_profile \<noteq> Null" "skills example_profile \<noteq> Null"
    by (simp_all add: example_profile_def)
  have roles: "or_empty (dict_get (target_roles example_profile)) = [''Data Engineer'']"
    by (simp add: example_profile_def)
  have word: "str_split ''Data Engineer'' \<noteq> []" by code_simp
  from roles word
  have words: "\<forall>role \<in> set (or_empty (dict_get (target_roles example_profile))).
      str_split role \<noteq> []"
    by simp
  have "title job_engineer \<noteq> None" "title job_cook \<noteq> None"
    by (simp_all add: job_engineer_def job_cook_def example_posting_def)
  then have titles: "\<forall>job \<in> set [job_engineer, job_cook]. title job \<noteq> None" by simp
  from inst1 fields words titles
  have total: "\<exists>res. filter_relevant_jobs False [job_engineer, job_cook] example_profile {}
      = Return res"
    by blast
  have "target_roles null_roles_profile = Null" by (simp add: null_roles_profile_def)
  with inst2
  have null: "filter_relevant_jobs False [job_engineer] null_roles_profile {} = Raise TypeError"
    by blast
  have reach: "job_id job_analyst \<notin> {} \<and> job_id job_analyst \<notin> fst ({}, [])
      \<and> \<not> (False \<and> \<not> is_true (remote job_analyst)) \<and> \<not> geo_denied job_analyst"
  proof -
    have "\<not> geo_denied job_analyst" by code_simp
    then show ?thesis by simp
  qed
  have jt: "job_text job_analyst = Inr ''analyst python and sql''" by code_simp
  have nw: "str_split [CHR 0xA0] = []" by code_simp
  have "\<exists>text pre r post. job_text job_analyst = Inr text \<and> [[CHR 0xA0]] = pre @ r # post \<and>
      str_split r = [] \<and> \<not> list_ex (first_word_in text) pre \<and>
      (\<forall>q \<in> set pre. str_split q \<noteq> [])"
    by (rule exI [of _ "''analyst python and sql''"], rule exI [of _ "[]"],
        rule exI [of _ "[CHR 0xA0]"], rule exI [of _ "[]"]) (simp add: jt nw)
  with inst3 reach
  have nbsp: "\<exists>err. filter_step False [[CHR 0xA0]] [''python''] {} ({}, []) job_analyst = Inl err"
    by blast
  have reach': "job_id untitled_posting \<notin> {} \<and> job_id untitled_posting \<notin> fst ({}, [])
      \<and> \<not> (False \<and> \<not> is_true (remote untitled_posting)) \<and> \<not> geo_denied untitled_posting"
  proof -
    have "\<not> geo_denied untitled_posting" by code_simp
    then show ?thesis by simp
  qed
  have untitled: "title untitled_posting = None" by code_simp
  from inst4 reach' untitled obtain err
    where err: "filter_step False [''data engineer''] [''python''] {} ({}, []) untitled_posting
      = Inl err"
    by blast
  with inst4 untitled have "err = TypeError" by blast
  with err have typed: "filter_step False [''data engineer''] [''python''] {} ({}, [])
      untitled_posting = Inl TypeError"
    by simp
  have whole: "filter_relevant_jobs False [job_analyst] nbsp_profile {} = Raise IndexError"
    by code_simp
  from total null nw nbsp whole typed show ?thesis by blast
qed

theorem filter_total_counterexample:
  "target_roles example_profile \<noteq> Null \<and> skills example_profile \<noteq> Null
   \<and> or_empty (dict_get (target_roles example_profile)) = [''Data Engineer'']
   \<and> str_split ''Data Engineer'' = [''Data'', ''Engineer'']
   \<and> fetch_remoteok_jobs example_fromiso 1704196800000000 (Inr [Rok_dict untitled_object])
       = [untitled_posting]
   \<and> title untitled_posting = None
   \<and> filter_relevant_jobs False [untitled_posting] example_profile {} = Raise TypeError
   \<and> or_empty (dict_get (target_roles trailing_wordless_profile)) = [''Data Engineer'', []]
   \<and> str_split [] = []
   \<and> \<not> geo_denied job_engineer
   \<and> filter_step False [''data engineer'', []] [] {} ({}, []) job_engineer
       = Inr ({job_id job_engineer}, [job_engineer])
   \<and> filter_relevant_jobs False [job_engineer] trailing_wordless_profile {}
       = Return [job_engineer]"
proof -
  have "target_roles example_profile \<noteq> Null" "skills example_profile \<noteq> Null"
    "or_empty (dict_get (target_roles example_profile)) = [''Data Engineer'']"
    by (simp_all add: example_profile_def)
  moreover have "str_split ''Data Engineer'' = [''Data'', ''Engineer'']" by code_simp
  moreover have "fetch_remoteok_jobs example_fromiso 1704196800000000
      (Inr [Rok_dict untitled_object]) = [untitled_posting]"
    by code_simp
  moreover have "title untitled_posting = None" by code_simp
  moreover have "filter_relevant_jobs False [untitled_posting] example_profile {}
      = Raise TypeError"
    by code_simp
  moreover have "or_empty (dict_get (target_roles trailing_wordless_profile))
      = [''Data Engineer'', []]"
    by (simp add: trailing_wordless_profile_def)
  moreover have "str_split [] = []" by code_simp
  moreover have "\<not> geo_denied job_engineer" by code_simp
  moreover have "filter_step False [''data engineer'', []] [] {} ({}, []) job_engineer
       = Inr ({job_id job_engineer}, [job_engineer])"
    by code_simp
  moreover have "filter_relevant_jobs False [job_engineer] trailing_wordless_profile {}
       = Return [job_engineer]"
    by code_simp
  ultimately show ?thesis by blast
qed

section \<open>Properties of the digest\<close>

lemma sorted_reverse_mset: "mset (sorted_reverse key xs) = mset xs"
  by (simp add: sorted_reverse_def)

lemma sorted_reverse_descending:
  "sorted_wrt (\<lambda>a b. key b \<le> key a) (sorted_reverse key xs)"
proof -
  have "sorted (map key (sort_key key (rev xs)))" by (rule sorted_sort_key)
  then have "sorted_wrt (\<lambda>a b. key a \<le> key b) (sort_key key (rev xs))"
    by (simp add: sorted_map)
  then show ?thesis by (simp add: sorted_reverse_def sorted_wrt_rev)
qed

lemma sorted_reverse_stable:
  "filter (\<lambda>x. key x = k) (sorted_reverse key xs) = filter (\<lambda>x. key x = k) xs"
proof -
  have "filter (\<lambda>x. key x = k) (sorted_reverse key xs)
      = rev (filter (\<lambda>x. key x = k) (sort_key key (rev xs)))"
    by (simp add: sorted_reverse_def rev_filter)
  also have "\<dots> = rev (filter (\<lambda>x. key x = k) (rev xs))"
    by (simp only: sort_key_stable)
  also have "\<dots> = filter (\<lambda>x. key x = k) xs"
    by (simp add: rev_filter)
  finally show ?thesis .
qed

lemma sorted_reverse_example:
  assumes "map key xs = [40, 90, 70]"
  shows "map key (sorted_reverse key xs) = [90, 70, 40]"
proof -
  from assms obtain a b c where xs: "xs = [a, b, c]"
    and k: "key a = 40" "key b = 90" "key c = 70"
    by (auto simp: map_eq_Cons_conv)
  show ?thesis by (simp add: xs k sorted_reverse_def)
qed

text \<open>
  C6. For every non-empty list of enriched pairs handed to the report builder (and a
  delivery that succeeds), the cards of the digest are the pairs in descending order of
  match score, and pairs of equal score keep the order they had in the list; scores
  40, 90, 70 are rendered in the order 90, 70, 40.
\<close>

theorem digest_ranked_by_score:
  assumes "jobs_with_ai \<noteq> []"
  shows "\<exists>cards. send_email_digest True jobs_with_ai = Inr (Some cards)
     \<and> mset cards = mset jobs_with_ai
     \<and> sorted_wrt (\<lambda>a b. score b \<le> score a) cards
     \<and> (\<forall>k. filter (\<lambda>x. score x = k) cards = filter (\<lambda>x. score x = k) jobs_with_ai)
     \<and> (map score jobs_with_ai = [40, 90, 70] \<longrightarrow> map score cards = [90, 70, 40])"
proof (intro exI conjI allI impI)
  show "send_email_digest True jobs_with_ai = Inr (Some (sorted_reverse score jobs_with_ai))"
    using assms by (simp add: send_email_digest_def)
  show "mset (sorted_reverse score jobs_with_ai) = mset jobs_with_ai"
    by (rule sorted_reverse_mset)
  show "sorted_wrt (\<lambda>a b. score b \<le> score a) (sorted_reverse score jobs_with_ai)"
    by (rule sorted_reverse_descending)
  show "filter (\<lambda>x. score x = k) (sorted_reverse score jobs_with_ai)
      = filter (\<lambda>x. score x = k) jobs_with_ai" for k
    by (rule sorted_reverse_stable)
  show "map score (sorted_reverse score jobs_with_ai) = [90, 70, 40]"
    if "map score jobs_with_ai = [40, 90, 70]"
    using that by (rule sorted_reverse_example)
qed

theorem digest_ranked_by_score_witness:
  "example_pairs \<noteq> []
   \<and> send_email_digest True example_pairs =
       Inr (Some [(job_analyst, example_ai 90), (job_tokyo, example_ai 70),
                  (job_engineer, example_ai 40)])
   \<and> map score [(job_analyst, example_ai 90), (job_tokyo, example_ai 70),
                 (job_engineer, example_ai 40)] = [90, 70, 40]"
proof -
  have ne: "example_pairs \<noteq> []" by (simp add: example_pairs_def)
  have scores: "map score example_pairs = [40, 90, 70]" by code_simp
  have run: "send_email_digest True example_pairs =
       Inr (Some [(job_analyst, example_ai 90), (job_tokyo, example_ai 70),
                  (job_engineer, example_ai 40)])"
    by code_simp
  from digest_ranked_by_score [OF ne] obtain cards
    where sent: "send_email_digest True example_pairs = Inr (Some cards)"
      and ex: "map score example_pairs = [40, 90, 70] \<longrightarrow> map score cards = [90, 70, 40]"
    by (elim exE conjE)
  from ex scores have "map score cards = [90, 70, 40]" by (rule mp)
  with sent run have "map score [(job_analyst, example_ai 90), (job_tokyo, example_ai 70),
                 (job_engineer, example_ai 40)] = [90, 70, 40]"
    by simp
  with ne run show ?thesis by blast
qed

section \<open>Properties of the run\<close>

lemma process_step_ok:
  assumes "oracle_reply e j = Inr ai" and "store_accepts e (sheet_row j ai)"
  shows "process_step e st j =
     st\<lparr>requests := requests st @ [j], sheet := sheet st @ [sheet_row j ai],
        enriched := enriched st @ [(j, ai)]\<rparr>"
  using assms by (simp add: process_step_def write_job_to_sheet_def Let_def)

lemma process_step_oracle_failure:
  assumes "oracle_reply e j = Inl err"
  shows "process_step e st j = st\<lparr>requests := requests st @ [j]\<rparr>"
  using assms by (simp add: process_step_def Let_def)

lemma process_all_ok:
  assumes "\<forall>j \<in> set js. \<exists>ai. oracle_reply e j = Inr ai \<and> store_accepts e (sheet_row j ai)"
  shows "foldl (process_step e) st js =
     st\<lparr>requests := requests st @ js,
        sheet := sheet st @ map (\<lambda>j. sheet_row j (projr (oracle_reply e j))) js,
        enriched := enriched st @ map (\<lambda>j. (j, projr (oracle_reply e j))) js\<rparr>"
  using assms
proof (induction js arbitrary: st)
  case Nil
  show ?case by simp
next
  case (Cons j js)
  from Cons.prems obtain ai where ai: "oracle_reply e j = Inr ai"
    "store_accepts e (sheet_row j ai)"
    by auto
  have rest: "\<forall>j \<in> set js. \<exists>ai. oracle_reply e j = Inr ai \<and> store_accepts e (sheet_row j ai)"
    using Cons.prems by simp
  show ?case
    by (simp add: process_step_ok [OF ai] Cons.IH [OF rest] ai(1))
qed

lemma process_one_failure:
  assumes "oracle_reply e x = Inl err"
    and "\<forall>j \<in> set (xs @ ys). \<exists>ai. oracle_reply e j = Inr ai \<and> store_accepts e (sheet_row j ai)"
  shows "foldl (process_step e) st (xs @ x # ys) =
     st\<lparr>requests := requests st @ xs @ x # ys,
        sheet := sheet st @ map (\<lambda>j. sheet_row j (projr (oracle_reply e j))) (xs @ ys),
        enriched := enriched st @ map (\<lambda>j. (j, projr (oracle_reply e j))) (xs @ ys)\<rparr>"
proof -
  have xs: "\<forall>j \<in> set xs. \<exists>ai. oracle_reply e j = Inr ai \<and> store_accepts e (sheet_row j ai)"
    and ys: "\<forall>j \<in> set ys. \<exists>ai. oracle_reply e j = Inr ai \<and> store_accepts e (sheet_row j ai)"
    using assms(2) by auto
  show ?thesis
    by (simp add: process_all_ok [OF xs] process_step_oracle_failure [OF assms(1)]
        process_all_ok [OF ys])
qed

text \<open>
  C7. When the request to the oracle raises for one of the filtered postings (whatever the
  error) and succeeds, with the row accepted by the sheet, for every other one, the run
  still sends a request for every posting, persists and keeps the N-1 other postings in
  their order, and ends normally with the digest of these N-1 results; the failed posting
  is neither persisted nor in the enriched output.
\<close>

theorem one_oracle_failure_drops_one_posting:
  assumes "primary_role prof = Inr query"
    and "filter_relevant_jobs (remote_only e) (all_jobs e query) prof already_seen
           = Return (xs @ x # ys)"
    and "oracle_reply e x = Inl err"
    and "\<forall>j \<in> set (xs @ ys). \<exists>ai. oracle_reply e j = Inr ai \<and> store_accepts e (sheet_row j ai)"
    and "smtp_ok e"
  shows "main_pipeline e prof rows already_seen =
     \<lparr>requests = xs @ x # ys,
       sheet = rows @ map (\<lambda>j. sheet_row j (projr (oracle_reply e j))) (xs @ ys),
       enriched = map (\<lambda>j. (j, projr (oracle_reply e j))) (xs @ ys),
       report = (if xs @ ys = [] then None
                 else Some (sorted_reverse score
                        (map (\<lambda>j. (j, projr (oracle_reply e j))) (xs @ ys)))),
       raised = None\<rparr>
     \<and> length (enriched (main_pipeline e prof rows already_seen)) = length (xs @ x # ys) - 1
     \<and> x \<notin> fst ` set (enriched (main_pipeline e prof rows already_seen))"
proof -
  let ?start = "\<lparr>requests = [], sheet = rows, enriched = [], report = None, raised = None\<rparr>"
  let ?kept = "map (\<lambda>j. (j, projr (oracle_reply e j))) (xs @ ys)"
  have loop: "foldl (process_step e) ?start (xs @ x # ys) =
     \<lparr>requests = xs @ x # ys,
       sheet = rows @ map (\<lambda>j. sheet_row j (projr (oracle_reply e j))) (xs @ ys),
       enriched = ?kept, report = None, raised = None\<rparr>"
    by (subst process_one_failure [OF assms(3,4)]) simp
  have digest: "send_email_digest (smtp_ok e) ?kept =
      Inr (if xs @ ys = [] then None else Some (sorted_reverse score ?kept))"
    using assms(5) by (simp add: send_email_digest_def)
  have ne: "xs @ x # ys \<noteq> []" by simp
  have run: "main_pipeline e prof rows already_seen =
     \<lparr>requests = xs @ x # ys,
       sheet = rows @ map (\<lambda>j. sheet_row j (projr (oracle_reply e j))) (xs @ ys),
       enriched = ?kept,
       report = (if xs @ ys = [] then None else Some (sorted_reverse score ?kept)),
       raised = None\<rparr>"
    by (simp add: main_pipeline_def Let_def assms(1,2) loop digest
        del: foldl_append map_append)
  have "x \<notin> set (xs @ ys)"
  proof
    assume "x \<in> set (xs @ ys)"
    with assms(4) obtain ai where "oracle_reply e x = Inr ai" by blast
    with assms(3) show False by simp
  qed
  then have "x \<notin> fst ` set ?kept" by force
  with run show ?thesis by simp
qed

theorem one_oracle_failure_drops_one_posting_witness:
  "length (take 1 example_fetched @ example_fetched ! 1 # drop 2 example_fetched) = 3
   \<and> oracle_reply example_env (example_fetched ! 1) = Inl ValueError
   \<and> length (enriched (main_pipeline example_env example_profile [] {})) = 3 - 1
   \<and> length (sheet (main_pipeline example_env example_profile [] {})) = 2
   \<and> requests (main_pipeline example_env example_profile [] {}) = example_fetched
   \<and> raised (main_pipeline example_env example_profile [] {}) = None
   \<and> example_fetched ! 1 \<notin> fst ` set (enriched (main_pipeline example_env example_profile [] {}))"
proof -
  let ?xs = "take 1 example_fetched" and ?x = "example_fetched ! 1"
    and ?ys = "drop 2 example_fetched"
  have q: "primary_role example_profile = Inr ''Data Engineer''" by code_simp
  have f: "filter_relevant_jobs (remote_only example_env) (all_jobs example_env ''Data Engineer'')
       example_profile {} = Return (?xs @ ?x # ?ys)"
    by code_simp
  have bad: "oracle_reply example_env ?x = Inl ValueError" by code_simp
  have "list_all (\<lambda>j. oracle_reply example_env j = Inr (example_ai 80)
            \<and> store_accepts example_env (sheet_row j (example_ai 80))) (?xs @ ?ys)"
    by code_simp
  then have good: "\<forall>j \<in> set (?xs @ ?ys). \<exists>ai. oracle_reply example_env j = Inr ai
      \<and> store_accepts example_env (sheet_row j ai)"
    unfolding list_all_iff by blast
  have mail: "smtp_ok example_env" by code_simp
  note inst = one_oracle_failure_drops_one_posting [OF q f bad good mail, of "[]"]
  have len: "length (?xs @ ?x # ?ys) = 3" by code_simp
  have whole: "?xs @ ?x # ?ys = example_fetched" by code_simp
  have len2: "length (?xs @ ?ys) = 2" by code_simp
  from inst len have a: "length (enriched (main_pipeline example_env example_profile [] {})) = 3 - 1"
    by simp
  have b: "length (sheet (main_pipeline example_env example_profile [] {})) = 2"
    using len2 by (simp add: inst [THEN conjunct1] del: map_append)
  have c: "requests (main_pipeline example_env example_profile [] {}) = example_fetched"
    using whole by (simp add: inst [THEN conjunct1])
  have d: "raised (main_pipeline example_env example_profile [] {}) = None"
    by (simp add: inst [THEN conjunct1])
  from inst have e: "?x \<notin> fst ` set (enriched (main_pipeline example_env example_profile [] {}))"
    by (elim conjE)
  from len bad a b c d e show ?thesis by blast
qed

text \<open>
  C8. When the filtered list is empty the run ends there, normally: no request is sent to
  the oracle, no row is written, and no digest is sent.
\<close>

theorem empty_filter_result_ends_run:
  assumes "primary_role prof = Inr query"
    and "filter_relevant_jobs (remote_only e) (all_jobs e query) prof already_seen = Return []"
  shows "main_pipeline e prof rows already_seen =
     \<lparr>requests = [], sheet = rows, enriched = [], report = None, raised = None\<rparr>"
  by (simp add: main_pipeline_def Let_def assms)

theorem empty_filter_result_ends_run_witness:
  "filter_relevant_jobs (remote_only example_env) (all_jobs example_env ''Data Engineer'')
       example_profile {''rok_1'', ''arb_py-dev'', ''muse_7''} = Return []
   \<and> main_pipeline example_env example_profile [[Str ''rok_1'']]
       {''rok_1'', ''arb_py-dev'', ''muse_7''} =
     \<lparr>requests = [], sheet = [[Str ''rok_1'']], enriched = [], report = None, raised = None\<rparr>"
proof -
  have q: "primary_role example_profile = Inr ''Data Engineer''" by code_simp
  have f: "filter_relevant_jobs (remote_only example_env) (all_jobs example_env ''Data Engineer'')
       example_profile {''rok_1'', ''arb_py-dev'', ''muse_7''} = Return []"
    by code_simp
  from f empty_filter_result_ends_run [OF q f] show ?thesis by blast
qed

section \<open>Properties of the adapters\<close>

lemma not_older_mono: "not_older fromiso now p \<Longrightarrow> t0 \<le> now \<Longrightarrow> not_older fromiso t0 p"
  by (auto simp: not_older_def split: option.splits)

lemma truthy_get_or: "truthy (dict_get_or f []) = truthy (dict_get f)"
  by (cases f) simp_all

lemma or_else_get_or: "or_else (dict_get_or f []) [] = or_else (dict_get f) []"
  by (cases f) simp_all

lemma or_else_Some_Nil: "or_else (Some v) [] = v"
  by simp

lemma posted_at_rok_posting: "posted_at (rok_posting job) = dict_get_or (rok_date job) []"
  by (simp add: rok_posting_def)

lemma posted_at_arb_posting:
  assumes "arb_posting isofmt job = Inr p"
  shows "\<exists>created t. arb_created_at job = Val created \<and> fromtimestamp created = Inr t \<and>
    posted_at p = Some (isofmt t)"
proof (cases "arb_created_at job")
  case Absent
  with assms show ?thesis by (simp add: arb_posting_def split: sum.splits)
next
  case Null
  with assms show ?thesis by (simp add: arb_posting_def split: sum.splits)
next
  case (Val created)
  show ?thesis
  proof (cases "fromtimestamp created")
    case (Inl e)
    with assms Val show ?thesis by (simp add: arb_posting_def split: sum.splits)
  next
    case (Inr t)
    with assms Val have "posted_at p = Some (isofmt t)"
      by (auto simp: arb_posting_def split: sum.splits)
    with Val Inr show ?thesis by simp
  qed
qed

lemma posted_at_muse_posting:
  assumes "muse_posting job = Inr p"
  shows "posted_at p = dict_get_or (muse_publication_date job) []"
  using assms by (auto simp: muse_posting_def split: sum.splits)

lemma not_older_snoc:
  assumes "\<forall>p \<in> set jobs. not_older fromiso now p" and "not_older fromiso now x"
  shows "\<forall>p \<in> set (jobs @ [x]). not_older fromiso now p"
  using assms by simp

lemma rok_step_not_older:
  assumes inv: "\<forall>p \<in> set jobs. not_older fromiso now p"
    and step: "rok_step fromiso now jobs item = Inr jobs'"
  shows "\<forall>p \<in> set jobs'. not_older fromiso now p"
proof (cases item)
  case Rok_other
  with step inv show ?thesis by (simp add: rok_step_def)
next
  case (Rok_dict job)
  show ?thesis
  proof (cases "jobs' = jobs")
    case True
    with inv show ?thesis by simp
  next
    case False
    show ?thesis
    proof (cases "truthy (dict_get (rok_date job))")
      case True
      with step Rok_dict False obtain posted where
        "fromiso (replace ''Z'' ''+00:00'' (or_else (dict_get (rok_date job)) [])) = Some posted"
        "\<not> posted < now - lookback" "jobs' = jobs @ [rok_posting job]"
        by (auto simp: rok_step_def split: if_splits option.splits)
      moreover from this have "not_older fromiso now (rok_posting job)"
        by (simp add: not_older_def posted_at_rok_posting or_else_get_or)
      ultimately show ?thesis using inv by simp
    next
      case no_date: False
      then have "not_older fromiso now (rok_posting job)"
        by (simp add: not_older_def posted_at_rok_posting truthy_get_or)
      moreover from step Rok_dict False no_date have "jobs' = jobs @ [rok_posting job]"
        by (auto simp: rok_step_def split: if_splits)
      ultimately show ?thesis using inv by simp
    qed
  qed
qed

lemma muse_step_not_older:
  assumes inv: "\<forall>p \<in> set jobs. not_older fromiso now p"
    and step: "muse_step fromiso now jobs job = Inr jobs'"
  shows "\<forall>p \<in> set jobs'. not_older fromiso now p"
proof (cases "jobs' = jobs")
  case True
  with inv show ?thesis by simp
next
  case False
  let ?pub = "dict_get_or (muse_publication_date job) []"
  from step False obtain p where p: "muse_posting job = Inr p" "jobs' = jobs @ [p]"
    by (auto simp: muse_step_def Let_def split: if_splits option.splits sum.splits)
  have "not_older fromiso now p"
  proof (cases "truthy ?pub")
    case False
    then show ?thesis by (simp add: not_older_def posted_at_muse_posting [OF p(1)])
  next
    case nonempty: True
    with step False obtain posted where
      "fromiso (replace ''Z'' ''+00:00'' (or_else ?pub [])) = Some posted"
      "\<not> posted < now - lookback"
      by (auto simp: muse_step_def Let_def split: if_splits option.splits)
    then show ?thesis by (simp add: not_older_def posted_at_muse_posting [OF p(1)])
  qed
  with inv p(2) show ?thesis by simp
qed

lemma arb_step_not_older:
  assumes inv: "\<forall>p \<in> set jobs. not_older fromiso now p"
    and rt: "iso_roundtrip fromiso isofmt job"
    and step: "arb_step isofmt now jobs job = Inr jobs'"
  shows "\<forall>p \<in> set jobs'. not_older fromiso now p"
proof (cases "jobs' = jobs")
  case True
  with inv show ?thesis by simp
next
  case False
  from step False obtain p where p: "arb_posting isofmt job = Inr p" "jobs' = jobs @ [p]"
    by (auto simp: arb_step_def split: if_splits sum.splits option.splits)
  from posted_at_arb_posting [OF p(1)] obtain created t where
    c: "arb_created_at job = Val created" "fromtimestamp created = Inr t"
      "posted_at p = Some (isofmt t)"
    by blast
  from step False c(1,2) have fresh: "\<not> t < now - lookback"
    by (auto simp: arb_step_def split: if_splits sum.splits)
  from rt c(1,2) have "fromiso (replace ''Z'' ''+00:00'' (isofmt t)) = Some t"
    by (simp add: iso_roundtrip_def)
  with fresh have "not_older fromiso now p"
    by (simp add: not_older_def c(3))
  with inv p(2) show ?thesis by simp
qed

lemma fetch_remoteok_not_older:
  "\<forall>p \<in> set (fetch_remoteok_jobs fromiso now response). not_older fromiso now p"
proof (cases response)
  case (Inl e)
  then show ?thesis by (simp add: fetch_remoteok_jobs_def)
next
  case (Inr data)
  note resp = this
  show ?thesis
  proof (cases "for_each (rok_step fromiso now) [] data")
    case (Inl e)
    with resp show ?thesis by (simp add: fetch_remoteok_jobs_def)
  next
    case (Inr jobs)
    have "\<forall>p \<in> set jobs. not_older fromiso now p"
    proof (rule for_each_invariant [OF Inr, where P = "\<lambda>js. \<forall>p \<in> set js. not_older fromiso now p"])
      show "\<forall>p \<in> set []. not_older fromiso now p" by simp
    next
      fix s x s'
      assume "\<forall>p \<in> set s. not_older fromiso now p" and "rok_step fromiso now s x = Inr s'"
      then show "\<forall>p \<in> set s'. not_older fromiso now p" by (rule rok_step_not_older)
    qed
    with Inr resp show ?thesis by (simp add: fetch_remoteok_jobs_def)
  qed
qed

lemma fetch_themuse_not_older:
  "\<forall>p \<in> set (fetch_themuse_jobs fromiso now response). not_older fromiso now p"
proof (cases response)
  case (Inl e)
  then show ?thesis by (simp add: fetch_themuse_jobs_def)
next
  case (Inr data)
  note resp = this
  show ?thesis
  proof (cases "for_each (muse_step fromiso now) [] data")
    case (Inl e)
    with resp show ?thesis by (simp add: fetch_themuse_jobs_def)
  next
    case (Inr jobs)
    have "\<forall>p \<in> set jobs. not_older fromiso now p"
    proof (rule for_each_invariant [OF Inr, where P = "\<lambda>js. \<forall>p \<in> set js. not_older fromiso now p"])
      show "\<forall>p \<in> set []. not_older fromiso now p" by simp
    next
      fix s x s'
      assume "\<forall>p \<in> set s. not_older fromiso now p" and "muse_step fromiso now s x = Inr s'"
      then show "\<forall>p \<in> set s'. not_older fromiso now p" by (rule muse_step_not_older)
    qed
    with Inr resp show ?thesis by (simp add: fetch_themuse_jobs_def)
  qed
qed

lemma fetch_arbeitnow_not_older:
  assumes "\<forall>data. response = Inr data \<longrightarrow> (\<forall>job \<in> set data. iso_roundtrip fromiso isofmt job)"
  shows "\<forall>p \<in> set (fetch_arbeitnow_jobs isofmt now response). not_older fromiso now p"
proof (cases response)
  case (Inl e)
  then show ?thesis by (simp add: fetch_arbeitnow_jobs_def)
next
  case (Inr data)
  note resp = this
  show ?thesis
  proof (cases "for_each (arb_step isofmt now) [] data")
    case (Inl e)
    with resp show ?thesis by (simp add: fetch_arbeitnow_jobs_def)
  next
    case (Inr jobs)
    have "\<forall>p \<in> set jobs. not_older fromiso now p"
    proof (rule for_each_invariant [OF Inr, where P = "\<lambda>js. \<forall>p \<in> set js. not_older fromiso now p"])
      show "\<forall>p \<in> set []. not_older fromiso now p" by simp
    next
      fix s x s'
      assume inv: "\<forall>p \<in> set s. not_older fromiso now p" and x: "x \<in> set data"
        and step: "arb_step isofmt now s x = Inr s'"
      from assms resp x have "iso_roundtrip fromiso isofmt x" by blast
      with inv show "\<forall>p \<in> set s'. not_older fromiso now p"
        using step by (rule arb_step_not_older)
    qed
    with Inr resp show ?thesis by (simp add: fetch_arbeitnow_jobs_def)
  qed
qed

text \<open>
  C5. No adapter delivers a posting whose \<open>posted_at\<close> time stamp is more than 24 hours
  before the adapter was invoked (the adapter reads the clock after it was invoked), and
  so no such posting is in the filtered output of the run. For the Arbeitnow adapter the
  date library is taken to read back the time stamps it writes.
\<close>

theorem adapters_drop_old_postings:
  assumes "\<forall>data. arb_response e query = Inr data \<longrightarrow>
      (\<forall>job \<in> set data. iso_roundtrip (fromisoformat e) (isoformat e) job)"
    and "t_rok \<le> clock_rok e" and "t_arb \<le> clock_arb e" and "t_muse \<le> clock_muse e"
  shows "(\<forall>p \<in> set (fetch_remoteok_jobs (fromisoformat e) (clock_rok e) (rok_response e)).
            not_older (fromisoformat e) t_rok p)
     \<and> (\<forall>p \<in> set (fetch_arbeitnow_jobs (isoformat e) (clock_arb e) (arb_response e query)).
            not_older (fromisoformat e) t_arb p)
     \<and> (\<forall>p \<in> set (fetch_themuse_jobs (fromisoformat e) (clock_muse e) (muse_response e)).
            not_older (fromisoformat e) t_muse p)
     \<and> (\<forall>res. filter_relevant_jobs ro (all_jobs e query) prof already_seen = Return res \<longrightarrow>
            (\<forall>p \<in> set res. not_older (fromisoformat e) (min t_rok (min t_arb t_muse)) p))"
proof -
  have rok: "\<forall>p \<in> set (fetch_remoteok_jobs (fromisoformat e) (clock_rok e) (rok_response e)).
      not_older (fromisoformat e) t_rok p"
    using fetch_remoteok_not_older assms(2) by (blast intro: not_older_mono)
  have arb: "\<forall>p \<in> set (fetch_arbeitnow_jobs (isoformat e) (clock_arb e) (arb_response e query)).
      not_older (fromisoformat e) t_arb p"
    using fetch_arbeitnow_not_older [OF assms(1)] assms(3) by (blast intro: not_older_mono)
  have muse: "\<forall>p \<in> set (fetch_themuse_jobs (fromisoformat e) (clock_muse e) (muse_response e)).
      not_older (fromisoformat e) t_muse p"
    using fetch_themuse_not_older assms(4) by (blast intro: not_older_mono)
  have every: "\<forall>p \<in> set (all_jobs e query).
      not_older (fromisoformat e) (min t_rok (min t_arb t_muse)) p"
  proof
    fix p
    assume "p \<in> set (all_jobs e query)"
    then consider
      "p \<in> set (fetch_remoteok_jobs (fromisoformat e) (clock_rok e) (rok_response e))"
      | "p \<in> set (fetch_arbeitnow_jobs (isoformat e) (clock_arb e) (arb_response e query))"
      | "p \<in> set (fetch_themuse_jobs (fromisoformat e) (clock_muse e) (muse_response e))"
      by (auto simp: all_jobs_def)
    then show "not_older (fromisoformat e) (min t_rok (min t_arb t_muse)) p"
    proof cases
      case 1
      with rok have "not_older (fromisoformat e) t_rok p" by blast
      then show ?thesis by (rule not_older_mono) simp
    next
      case 2
      with arb have "not_older (fromisoformat e) t_arb p" by blast
      then show ?thesis by (rule not_older_mono) simp
    next
      case 3
      with muse have "not_older (fromisoformat e) t_muse p" by blast
      then show ?thesis by (rule not_older_mono) simp
    qed
  qed
  have out: "\<forall>res. filter_relevant_jobs ro (all_jobs e query) prof already_seen = Return res \<longrightarrow>
      (\<forall>p \<in> set res. not_older (fromisoformat e) (min t_rok (min t_arb t_muse)) p)"
  proof (intro allI impI ballI)
    fix res p
    assume "filter_relevant_jobs ro (all_jobs e query) prof already_seen = Return res"
      and "p \<in> set res"
    then have sub: "subseq res (all_jobs e query)" and mem: "p \<in> set res"
      by (simp_all add: filtered_subseq)
    from list_emb_set [OF sub mem] have "p \<in> set (all_jobs e query)" by blast
    with every show "not_older (fromisoformat e) (min t_rok (min t_arb t_muse)) p" by blast
  qed
  from rok arb muse out show ?thesis by blast
qed

theorem adapters_drop_old_postings_witness:
  "map job_id (all_jobs example_env ''Data Engineer'') = [''rok_1'', ''arb_py-dev'', ''muse_7'']
   \<and> list_all (not_older (fromisoformat example_env) (clock_rok example_env))
        (fetch_remoteok_jobs (fromisoformat example_env) (clock_rok example_env)
           (rok_response example_env))
   \<and> list_all (not_older (fromisoformat example_env) (clock_arb example_env))
        (fetch_arbeitnow_jobs (isoformat example_env) (clock_arb example_env)
           (arb_response example_env ''Data Engineer''))
   \<and> list_all (not_older (fromisoformat example_env) (clock_muse example_env))
        (fetch_themuse_jobs (fromisoformat example_env) (clock_muse example_env)
           (muse_response example_env))
   \<and> list_all (not_older (fromisoformat example_env) (clock_rok example_env)) example_fetched"
proof -
  have ids: "map job_id (all_jobs example_env ''Data Engineer'')
      = [''rok_1'', ''arb_py-dev'', ''muse_7'']"
    by code_simp
  have resp: "arb_response example_env ''Data Engineer'' =
      Inr [arb_element ''py-dev'' ''Python Developer'' 1704153600,
           arb_element ''old-dev'' ''Python Developer'' 1704067200]"
    by (simp add: example_env_def)
  have "list_all (iso_roundtrip (fromisoformat example_env) (isoformat example_env))
      [arb_element ''py-dev'' ''Python Developer'' 1704153600,
       arb_element ''old-dev'' ''Python Developer'' 1704067200]"
    by code_simp
  with resp have rt: "\<forall>data. arb_response example_env ''Data Engineer'' = Inr data \<longrightarrow>
      (\<forall>job \<in> set data. iso_roundtrip (fromisoformat example_env) (isoformat example_env) job)"
    by (simp add: list_all_iff)
  have t2: "clock_rok example_env \<le> clock_arb example_env"
    and t3: "clock_rok example_env \<le> clock_muse example_env"
    by (simp_all add: example_env_def)
  note each = adapters_drop_old_postings [OF rt order_refl order_refl order_refl,
      where ro = "remote_only example_env" and prof = example_profile and already_seen = "{}"]
  note first = adapters_drop_old_postings [OF rt order_refl t2 t3,
      where ro = "remote_only example_env" and prof = example_profile and already_seen = "{}"]
  have run: "filter_relevant_jobs (remote_only example_env)
      (all_jobs example_env ''Data Engineer'') example_profile {} = Return example_fetched"
    by code_simp
  from first run
  have "\<forall>p \<in> set example_fetched. not_older (fromisoformat example_env)
      (min (clock_rok example_env) (min (clock_rok example_env) (clock_rok example_env))) p"
    by blast
  then have out: "list_all (not_older (fromisoformat example_env) (clock_rok example_env))
      example_fetched"
    by (simp add: list_all_iff)
  from each have a: "list_all (not_older (fromisoformat example_env) (clock_rok example_env))
        (fetch_remoteok_jobs (fromisoformat example_env) (clock_rok example_env)
           (rok_response example_env))"
    and b: "list_all (not_older (fromisoformat example_env) (clock_arb example_env))
        (fetch_arbeitnow_jobs (isoformat example_env) (clock_arb example_env)
           (arb_response example_env ''Data Engineer''))"
    and c: "list_all (not_older (fromisoformat example_env) (clock_muse example_env))
        (fetch_themuse_jobs (fromisoformat example_env) (clock_muse example_env)
           (muse_response example_env))"
    unfolding list_all_iff by blast+
  from ids a b c out show ?thesis by blast
qed

end
